theory Spec2Isabelle
  imports Complex_Main
begin

section \<open>JavaScript values used by the alarm engine\<close>

text \<open>
  The source is \<^verbatim>\<open>src/App.tsx\<close>. JavaScript numbers are doubles; every number the engine
  computes with is an integer far below \<open>2^53\<close> or a quotient of two such integers, so
  integers are modelled by \<open>int\<close> and quotients by exact \<open>real\<close> arithmetic.
\<close>

definition js_round :: "real \<Rightarrow> int" where
  \<comment> \<open>\<^verbatim>\<open>Math.round\<close>: the nearest integer, a tie going towards plus infinity.\<close>
  "js_round x = \<lfloor>x + 1 / 2\<rfloor>"

definition js_floor :: "real \<Rightarrow> int" where
  \<comment> \<open>\<^verbatim>\<open>Math.floor\<close>\<close>
  "js_floor x = \<lfloor>x\<rfloor>"

definition js_rem :: "int \<Rightarrow> int \<Rightarrow> int" where
  \<comment> \<open>The operator \<^verbatim>\<open>%\<close> on integers with a non-zero right operand: the remainder has
      the sign of the dividend.\<close>
  "js_rem a b = sgn a * (\<bar>a\<bar> mod \<bar>b\<bar>)"

datatype js_error = TypeError

fun reduce1 :: "('a \<Rightarrow> 'a \<Rightarrow> 'a) \<Rightarrow> 'a list \<Rightarrow> js_error + 'a" where
  \<comment> \<open>\<^verbatim>\<open>Array.prototype.reduce\<close> without an initial value: a TypeError on an empty array.\<close>
  "reduce1 f [] = Inl TypeError"
| "reduce1 f (x # xs) = Inr (foldl f x xs)"

definition nth_opt :: "'a list \<Rightarrow> int \<Rightarrow> 'a option" where
  \<comment> \<open>Array indexing: \<^verbatim>\<open>undefined\<close> (here \<open>None\<close>) outside the array.\<close>
  "nth_opt xs i = (if 0 \<le> i \<and> i < int (length xs) then Some (xs ! nat i) else None)"

definition days_at :: "bool list \<Rightarrow> nat \<Rightarrow> bool" where
  \<comment> \<open>\<^verbatim>\<open>days[i]\<close> used as a condition: \<^verbatim>\<open>undefined\<close> outside the array is falsy.\<close>
  "days_at ds i = (i < length ds \<and> ds ! i)"

subsection \<open>Strings\<close>

text \<open>Strings are modelled over ASCII.\<close>

definition digit_char :: "nat \<Rightarrow> char" where
  "digit_char n = ''0123456789'' ! n"

function show_nat :: "nat \<Rightarrow> string" where
  "show_nat n = (if n < 10 then [digit_char n] else show_nat (n div 10) @ [digit_char (n mod 10)])"
  by pat_completeness auto
termination
  by (relation "measure (\<lambda>n. n)") auto

declare show_nat.simps [simp del]

definition show_int :: "int \<Rightarrow> string" where
  \<comment> \<open>\<^verbatim>\<open>Number.prototype.toString\<close> and template interpolation, on an integer.\<close>
  "show_int i = (if i < 0 then CHR ''-'' # show_nat (nat (- i)) else show_nat (nat i))"

definition padStart :: "nat \<Rightarrow> char \<Rightarrow> string \<Rightarrow> string" where
  "padStart n c s = replicate (n - length s) c @ s"

definition isWhiteSpace :: "char \<Rightarrow> bool" where
  \<comment> \<open>space, tab, line feed, vertical tab, form feed, carriage return\<close>
  "isWhiteSpace c = (c \<in> set [CHR '' '', CHR 0x09, CHR 0x0A, CHR 0x0B, CHR 0x0C, CHR 0x0D])"

definition trim :: "string \<Rightarrow> string" where
  "trim s = rev (dropWhile isWhiteSpace (rev (dropWhile isWhiteSpace s)))"

definition toLowerChar :: "char \<Rightarrow> char" where
  "toLowerChar c =
     (case map_of (zip ''ABCDEFGHIJKLMNOPQRSTUVWXYZ'' ''abcdefghijklmnopqrstuvwxyz'') c of
        Some l \<Rightarrow> l
      | None \<Rightarrow> c)"

definition toLowerCase :: "string \<Rightarrow> string" where
  "toLowerCase s = map toLowerChar s"

definition digitVal :: "char \<Rightarrow> int option" where
  "digitVal c =
     map_of [(CHR ''0'', 0), (CHR ''1'', 1), (CHR ''2'', 2), (CHR ''3'', 3), (CHR ''4'', 4),
             (CHR ''5'', 5), (CHR ''6'', 6), (CHR ''7'', 7), (CHR ''8'', 8), (CHR ''9'', 9)] c"

definition isDigit :: "char \<Rightarrow> bool" where
  "isDigit c = (digitVal c \<noteq> None)"

definition digitsValue :: "string \<Rightarrow> int" where
  "digitsValue ds = foldl (\<lambda>acc c. 10 * acc + (case digitVal c of Some d \<Rightarrow> d | None \<Rightarrow> 0)) 0 ds"

definition parseInt :: "string \<Rightarrow> int option" where
  \<comment> \<open>\<^verbatim>\<open>parseInt(s, 10)\<close>: leading white space is skipped, one sign is read, then the longest
      run of decimal digits; what follows the digits is ignored. \<open>None\<close> is \<^verbatim>\<open>NaN\<close>.\<close>
  "parseInt s =
     (let t = dropWhile isWhiteSpace s;
          neg = (t \<noteq> [] \<and> hd t = CHR ''-'');
          u = (if t \<noteq> [] \<and> (hd t = CHR ''-'' \<or> hd t = CHR ''+'') then tl t else t);
          ds = takeWhile isDigit u
      in if ds = [] then None
         else Some (if neg then - digitsValue ds else digitsValue ds))"

subsection \<open>Dates\<close>

text \<open>
  A \<^verbatim>\<open>Date\<close> is its local wall-clock time in milliseconds since the local epoch
  (1970-01-01 00:00, a Thursday); the engine assumes one local clock, and daylight-saving
  shifts are outside the model.
\<close>

type_synonym js_date = int

definition getTime :: "js_date \<Rightarrow> int" where
  "getTime d = d"

definition getHours :: "js_date \<Rightarrow> int" where
  "getHours d = (d div 3600000) mod 24"

definition getMinutes :: "js_date \<Rightarrow> int" where
  "getMinutes d = (d div 60000) mod 60"

definition getDay :: "js_date \<Rightarrow> nat" where
  \<comment> \<open>0 is Sunday\<close>
  "getDay d = nat ((d div 86400000 + 4) mod 7)"

definition addDays :: "js_date \<Rightarrow> int \<Rightarrow> js_date" where
  \<comment> \<open>\<^verbatim>\<open>d.setDate(d.getDate() + i)\<close>\<close>
  "addDays d i = d + i * 86400000"

definition setHours :: "js_date \<Rightarrow> int \<Rightarrow> int \<Rightarrow> js_date" where
  \<comment> \<open>\<^verbatim>\<open>d.setHours(h, m, 0, 0)\<close>\<close>
  "setHours d h m = (d div 86400000) * 86400000 + h * 3600000 + m * 60000"

section \<open>Data model\<close>

datatype alarm_sound = Sunrise | Ocean | Forest | Chimes | Piano | Birds
datatype dismiss_type = Simple | Breathing | Affirmation | Math | Shake
datatype wake_intensity = Whisper | Gentle | Moderate | Energetic

record alarm =
  alarm_id :: string
  hour :: int
  minute :: int
  days :: "bool list"
  enabled :: bool
  label :: string
  snooze :: int
  wakeIntensity :: wake_intensity
  sound :: alarm_sound
  dismissType :: dismiss_type

record math_problem =
  question :: string
  answer :: int

record sleep_entry =
  entry_id :: string
  bedtime :: int
  wakeTime :: int
  sleepDuration :: int

definition WAKE_INTENSITY_OPTIONS :: "(wake_intensity \<times> real) list" where
  "WAKE_INTENSITY_OPTIONS =
     [(Whisper, 0.3), (Gentle, 0.5), (Moderate, 0.75), (Energetic, 1.0)]"

definition SHAKE_THRESHOLD :: real where
  "SHAKE_THRESHOLD = 1.5"

definition REQUIRED_SHAKES :: nat where
  "REQUIRED_SHAKES = 5"

definition BREATHING_CYCLES_REQUIRED :: nat where
  "BREATHING_CYCLES_REQUIRED = 3"

definition AFFIRMATIONS :: "string list" where
  "AFFIRMATIONS =
     [''I am ready for a great day'', ''Today I choose positivity'',
      ''I am grateful and energized'', ''I welcome this new day'']"

definition SOUND_CONFIGS :: "alarm_sound \<Rightarrow> real \<times> nat list option" where
  \<comment> \<open>playback rate and on/off pattern in milliseconds\<close>
  "SOUND_CONFIGS snd_type =
     (case snd_type of
        Sunrise \<Rightarrow> (1.0, None)
      | Ocean \<Rightarrow> (0.75, Some [3000, 1500])
      | Forest \<Rightarrow> (1.2, Some [500, 200, 500, 200, 500, 1500])
      | Chimes \<Rightarrow> (1.1, Some [400, 600, 400, 600, 400, 1200])
      | Piano \<Rightarrow> (0.85, Some [2000, 800])
      | Birds \<Rightarrow> (1.4, Some [300, 150, 300, 150, 300, 150, 300, 1000]))"

section \<open>Math mission: problem generation\<close>

text \<open>
  \<^verbatim>\<open>Math.random()\<close> is the external generator: its \<open>n\<close>-th call returns \<open>rng n\<close>, a
  number in \<open>[0, 1)\<close>. Functions that draw take the generator and the number of calls
  made so far, and return the new count.
\<close>

definition randomInt :: "real \<Rightarrow> nat \<Rightarrow> int" where
  \<comment> \<open>\<^verbatim>\<open>Math.floor(Math.random() * n)\<close>, with \<open>r\<close> the drawn number\<close>
  "randomInt r n = js_floor (r * real n)"

definition operations :: "string list" where
  "operations = [''+'', ''-'', ''*'']"

definition generateMathProblem :: "(nat \<Rightarrow> real) \<Rightarrow> nat \<Rightarrow> math_problem \<times> nat" where
  "generateMathProblem rng n =
     (let operation = nth_opt operations (randomInt (rng n) (length operations));
          (a, b, ans, n') =
            (if operation = Some ''+'' then
               (let a = randomInt (rng (n + 1)) 50 + 10;
                    b = randomInt (rng (n + 2)) 50 + 10
                in (a, b, a + b, n + 3))
             else if operation = Some ''-'' then
               (let a = randomInt (rng (n + 1)) 50 + 30;
                    b = randomInt (rng (n + 2)) 30 + 1
                in (a, b, a - b, n + 3))
             else if operation = Some ''*'' then
               (let a = randomInt (rng (n + 1)) 12 + 2;
                    b = randomInt (rng (n + 2)) 12 + 2
                in (a, b, a * b, n + 3))
             else (10, 10, 20, n + 1))
      in (\<lparr>question = show_int a @ '' '' @ (case operation of Some op \<Rightarrow> op | None \<Rightarrow> ''undefined'')
                        @ '' '' @ show_int b,
           answer = ans\<rparr>, n'))"

section \<open>Sleep analytics\<close>

definition formatSettingsTime :: "int \<Rightarrow> int \<Rightarrow> string" where
  "formatSettingsTime h m =
     (let displayHour = (if js_rem h 12 = 0 then 12 else js_rem h 12);
          ampm = (if h \<ge> 12 then ''PM'' else ''AM'')
      in show_int displayHour @ '':'' @ padStart 2 (CHR ''0'') (show_int m) @ '' '' @ ampm)"

definition formatAlarmTime :: "int \<Rightarrow> int \<Rightarrow> string" where
  "formatAlarmTime h m =
     (let displayHour = (if js_rem h 12 = 0 then 12 else js_rem h 12);
          ampm = (if h \<ge> 12 then ''PM'' else ''AM'')
      in show_int displayHour @ '':'' @ padStart 2 (CHR ''0'') (show_int m) @ '' '' @ ampm)"

record extreme =
  duration :: int
  date :: js_date

record sleep_stats =
  average :: int
  best :: extreme
  worst :: extreme
  totalNights :: nat
  avgBedtime :: string
  avgWakeTime :: string

definition bedtimeMins :: "sleep_entry \<Rightarrow> int" where
  \<comment> \<open>minute of the day of the bedtime, a time before noon counted as after midnight\<close>
  "bedtimeMins e =
     (let bed = bedtime e;
          mins = getHours bed * 60 + getMinutes bed
      in if mins < 720 then mins + 1440 else mins)"

definition wakeMins :: "sleep_entry \<Rightarrow> int" where
  "wakeMins e = (let wake = wakeTime e in getHours wake * 60 + getMinutes wake)"

definition getSleepStats :: "sleep_entry list \<Rightarrow> js_error + sleep_stats option" where
  "getSleepStats sleepData =
     (if length sleepData = 0 then Inr None
      else
        let durations = map sleepDuration sleepData;
            total = foldl (\<lambda>sum d. sum + d) 0 durations;
            avg = js_round (real_of_int total / real (length durations))
        in case reduce1 (\<lambda>mx e. if sleepDuration e > sleepDuration mx then e else mx) sleepData of
             Inl err \<Rightarrow> Inl err
           | Inr bst \<Rightarrow>
        (case reduce1 (\<lambda>mn e. if sleepDuration e < sleepDuration mn then e else mn) sleepData of
             Inl err \<Rightarrow> Inl err
           | Inr wst \<Rightarrow>
        (let bedtimeMinutes = map bedtimeMins sleepData;
             avgBedtimeMinutes =
               js_rem (js_round (real_of_int (foldl (\<lambda>sum m. sum + m) 0 bedtimeMinutes)
                                   / real (length bedtimeMinutes))) 1440;
             avgBedtimeHour = js_floor (real_of_int avgBedtimeMinutes / 60);
             avgBedtimeMinute = js_rem avgBedtimeMinutes 60;
             wakeMinutes = map wakeMins sleepData;
             avgWakeMinutes =
               js_round (real_of_int (foldl (\<lambda>sum m. sum + m) 0 wakeMinutes)
                           / real (length wakeMinutes));
             avgWakeHour = js_floor (real_of_int avgWakeMinutes / 60);
             avgWakeMinute = js_rem avgWakeMinutes 60
         in Inr (Some \<lparr>average = avg,
                       best = \<lparr>duration = sleepDuration bst, date = wakeTime bst\<rparr>,
                       worst = \<lparr>duration = sleepDuration wst, date = wakeTime wst\<rparr>,
                       totalNights = length sleepData,
                       avgBedtime = formatSettingsTime avgBedtimeHour avgBedtimeMinute,
                       avgWakeTime = formatSettingsTime avgWakeHour avgWakeMinute\<rparr>))))"

record wake_suggestion =
  optimalHour :: int
  optimalMinute :: int
  avgSleep :: int

definition getOptimalWakeTime :: "sleep_entry list \<Rightarrow> wake_suggestion option" where
  "getOptimalWakeTime sleepData =
     (if length sleepData < 7 then None
      else
        let recentData = drop (length sleepData - 7) sleepData;
            avgSleepDuration =
              js_round (real_of_int (foldl (\<lambda>sum e. sum + sleepDuration e) 0 recentData)
                          / real (length recentData));
            avgBedtimeMinutes =
              js_round (real_of_int (foldl (\<lambda>sum e. sum + bedtimeMins e) 0 recentData)
                          / real (length recentData));
            optimalSleepMinutes = 480;
            optimalWakeMinutes = js_rem (avgBedtimeMinutes + optimalSleepMinutes) 1440
        in Some \<lparr>optimalHour = js_floor (real_of_int optimalWakeMinutes / 60),
                 optimalMinute = js_round (real_of_int (js_rem optimalWakeMinutes 60) / 5) * 5,
                 avgSleep = avgSleepDuration\<rparr>)"

section \<open>Countdown to the next alarm\<close>

datatype js_num = Infinity | Num int

definition lessThanNum :: "int \<Rightarrow> js_num \<Rightarrow> bool" where
  \<comment> \<open>\<^verbatim>\<open>diff < minDiff\<close>, where \<open>minDiff\<close> starts as \<^verbatim>\<open>Infinity\<close>\<close>
  "lessThanNum d m = (case m of Infinity \<Rightarrow> True | Num x \<Rightarrow> d < x)"

function scanWeek :: "js_date \<Rightarrow> alarm \<Rightarrow> nat \<Rightarrow> js_num \<Rightarrow> js_num" where
  \<comment> \<open>The loop \<^verbatim>\<open>for (let i = 0; i < 7; i++)\<close> of a repeating alarm, from \<open>i\<close> on; the
      \<^verbatim>\<open>break\<close> is the branch without a recursive call.\<close>
  "scanWeek now al i minDiff =
     (if i < 7 then
        (let dayIndex = (getDay now + i) mod 7 in
         if days_at (days al) dayIndex then
           (let candidate = setHours (addDays now (int i)) (hour al) (minute al) in
            if getTime candidate > getTime now then
              (let diff = getTime candidate - getTime now in
               if lessThanNum diff minDiff then Num diff else minDiff)
            else scanWeek now al (i + 1) minDiff)
         else scanWeek now al (i + 1) minDiff)
      else minDiff)"
  by pat_completeness auto
termination
  by (relation "measure (\<lambda>(now, al, i, minDiff). 7 - i)") auto

declare scanWeek.simps [simp del]

definition oneShotDiff :: "js_date \<Rightarrow> alarm \<Rightarrow> js_num \<Rightarrow> js_num" where
  \<comment> \<open>The \<^verbatim>\<open>else\<close> branch: an alarm with no weekday set.\<close>
  "oneShotDiff now al minDiff =
     (let alarmDate0 = setHours now (hour al) (minute al);
          alarmDate = (if getTime alarmDate0 \<le> getTime now then addDays alarmDate0 1 else alarmDate0);
          diff = getTime alarmDate - getTime now
      in if lessThanNum diff minDiff then Num diff else minDiff)"

record countdown =
  hours :: int
  minutes :: int

definition getNextAlarmCountdown :: "alarm list \<Rightarrow> js_date \<Rightarrow> countdown option" where
  \<comment> \<open>\<open>alarms\<close> and \<open>now\<close> are the state variables \<^verbatim>\<open>alarms\<close> and \<^verbatim>\<open>currentTime\<close>.\<close>
  "getNextAlarmCountdown alarms now =
     (let enabledAlarms = filter enabled alarms in
      if length enabledAlarms = 0 then None
      else
        let minDiff =
              foldl (\<lambda>minDiff al.
                       if list_ex (\<lambda>d. d) (days al) then scanWeek now al 0 minDiff
                       else oneShotDiff now al minDiff)
                    Infinity enabledAlarms
        in case minDiff of
             Infinity \<Rightarrow> None
           | Num d \<Rightarrow>
               (let totalMinutes = js_floor (real_of_int d / 60000)
                in Some \<lparr>hours = js_floor (real_of_int totalMinutes / 60),
                         minutes = js_rem totalMinutes 60\<rparr>))"

section \<open>Application state\<close>

datatype breathing_phase = Inhale | Hold | Exhale | Done

text \<open>
  A pending \<^verbatim>\<open>setTimeout\<close> holds its callback; the mutable variables a callback closes
  over travel with it.
\<close>

datatype callback =
    RunPattern "nat list" real bool
      \<comment> \<open>\<^verbatim>\<open>runPattern\<close> with its \<^verbatim>\<open>config.pattern\<close>, \<^verbatim>\<open>initialVolume\<close>, \<^verbatim>\<open>isPlaying\<close>\<close>
  | RunPhase nat breathing_phase
      \<comment> \<open>\<^verbatim>\<open>runPhase\<close> with its \<^verbatim>\<open>cycle\<close> and \<^verbatim>\<open>phase\<close>\<close>
  | SnoozeTrigger alarm
      \<comment> \<open>the snooze callback with the alarm it captured\<close>
  | ClearWrong
      \<comment> \<open>\<^verbatim>\<open>() => setWrongAnswer(false)\<close>\<close>

record pending_timeout =
  timer_id :: nat
  delay :: int
  callback :: callback

record sound_obj =
  sound_handle :: nat
  volume :: real
  rate :: real

text \<open>
  The state of the component: its \<^verbatim>\<open>useState\<close> variables and \<^verbatim>\<open>useRef\<close> cells, the
  sounds created and not yet stopped, and the pending timeouts. \<open>nextSound\<close>,
  \<open>nextTimer\<close> and \<open>randCount\<close> are the handle of the next sound, the id of the next
  timer and the number of draws made so far. Two fields record the history for the
  properties below and do not exist in the source: \<open>alarmsUpdates\<close> counts the calls of
  \<^verbatim>\<open>setAlarms\<close>, \<open>triggerLog\<close> lists the alarm ids \<^verbatim>\<open>triggerAlarm\<close> was called with.
  A handler reads the state as it is when it starts and runs to its end
  before the next event; the audio device is taken to succeed.
\<close>

record app_state =
  alarms :: "alarm list"
  alarmsUpdates :: nat
  alarmScreenVisible :: bool
  activeAlarm :: "alarm option"
  mathProblem :: math_problem
  userAnswer :: string
  wrongAnswer :: bool
  breathingPhase :: breathing_phase
  breathingCycle :: nat
  breathingTimerRef :: "nat option"
  affirmationText :: string
  targetAffirmation :: "string option"
  shakeCount :: nat
  lastShakeTime :: int
  bedtimeModalVisible :: bool
  bedtimeHour :: int
  bedtimeMinute :: int
  pendingWakeTime :: "js_date option"
  soundRef :: "nat option"
  lastTriggeredRef :: string
  patternIntervalRef :: "nat option"
  patternIndexRef :: nat
  sounds :: "sound_obj list"
  nextSound :: nat
  timeouts :: "pending_timeout list"
  nextTimer :: nat
  randCount :: nat
  triggerLog :: "string list"

definition setAlarms :: "alarm list \<Rightarrow> app_state \<Rightarrow> app_state" where
  "setAlarms as s = s\<lparr>alarms := as, alarmsUpdates := alarmsUpdates s + 1\<rparr>"

definition setTimeout :: "callback \<Rightarrow> int \<Rightarrow> app_state \<Rightarrow> nat \<times> app_state" where
  "setTimeout cb d s =
     (nextTimer s,
      s\<lparr>timeouts := timeouts s @ [\<lparr>timer_id = nextTimer s, delay = d, callback = cb\<rparr>],
        nextTimer := nextTimer s + 1\<rparr>)"

definition clearTimeout :: "nat \<Rightarrow> app_state \<Rightarrow> app_state" where
  "clearTimeout t s = s\<lparr>timeouts := filter (\<lambda>p. timer_id p \<noteq> t) (timeouts s)\<rparr>"

section \<open>Sound and intensity scheduler\<close>

definition setVolumeAsync :: "nat \<Rightarrow> real \<Rightarrow> app_state \<Rightarrow> app_state" where
  "setVolumeAsync h v s =
     s\<lparr>sounds := map (\<lambda>x. if sound_handle x = h then x\<lparr>volume := v\<rparr> else x) (sounds s)\<rparr>"

definition runPattern :: "nat list \<Rightarrow> real \<Rightarrow> bool \<Rightarrow> app_state \<Rightarrow> app_state" where
  \<comment> \<open>An empty pattern has no element to read: the delay is then \<^verbatim>\<open>undefined\<close>, which
      \<^verbatim>\<open>setTimeout\<close> takes as 0.\<close>
  "runPattern pattern initialVolume isPlaying s =
     (case soundRef s of
        None \<Rightarrow> s
      | Some h \<Rightarrow>
          let duration =
                (if pattern = [] then 0 else int (pattern ! (patternIndexRef s mod length pattern)));
              s1 = (if isPlaying then setVolumeAsync h initialVolume s
                    else setVolumeAsync h 0.05 s);
              s2 = s1\<lparr>patternIndexRef := patternIndexRef s1 + 1\<rparr>;
              (t, s3) = setTimeout (RunPattern pattern initialVolume (\<not> isPlaying)) duration s2
          in s3\<lparr>patternIntervalRef := Some t\<rparr>)"

definition playAlarmSound :: "wake_intensity \<Rightarrow> alarm_sound \<Rightarrow> app_state \<Rightarrow> app_state" where
  "playAlarmSound intensity soundType s =
     (let config = SOUND_CONFIGS soundType;
          initialVolume =
            (case find (\<lambda>opt. fst opt = intensity) WAKE_INTENSITY_OPTIONS of
               Some opt \<Rightarrow> snd opt
             | None \<Rightarrow> 0.5);
          h = nextSound s;
          s1 = s\<lparr>sounds := sounds s @ [\<lparr>sound_handle = h, volume = initialVolume, rate = fst config\<rparr>],
                 nextSound := h + 1,
                 soundRef := Some h\<rparr>
      in case snd config of
           None \<Rightarrow> s1
         | Some pattern \<Rightarrow>
             let s2 = s1\<lparr>patternIndexRef := 0\<rparr>;
                 (t, s3) = setTimeout (RunPattern pattern initialVolume True)
                             (case pattern of [] \<Rightarrow> 0 | d # _ \<Rightarrow> int d) s2
             in s3\<lparr>patternIntervalRef := Some t\<rparr>)"

definition stopAlarmSound :: "app_state \<Rightarrow> app_state" where
  "stopAlarmSound s =
     (let s1 = (case patternIntervalRef s of
                  Some t \<Rightarrow> (clearTimeout t s)\<lparr>patternIntervalRef := None\<rparr>
                | None \<Rightarrow> s)
      in case soundRef s1 of
           Some h \<Rightarrow> s1\<lparr>sounds := filter (\<lambda>x. sound_handle x \<noteq> h) (sounds s1), soundRef := None\<rparr>
         | None \<Rightarrow> s1)"

section \<open>Dismissal state machine\<close>

definition startBreathingExercise :: "app_state \<Rightarrow> app_state" where
  "startBreathingExercise s =
     (let s1 = s\<lparr>breathingPhase := Inhale, breathingCycle := 0\<rparr>;
          (t, s2) = setTimeout (RunPhase 0 Inhale) 4000 s1
      in s2\<lparr>breathingTimerRef := Some t\<rparr>)"

definition runPhase :: "nat \<Rightarrow> breathing_phase \<Rightarrow> app_state \<Rightarrow> app_state" where
  "runPhase cycle phase s =
     (case phase of
        Inhale \<Rightarrow>
          (let s1 = s\<lparr>breathingPhase := Hold\<rparr>;
               (t, s2) = setTimeout (RunPhase cycle Hold) 2000 s1
           in s2\<lparr>breathingTimerRef := Some t\<rparr>)
      | Hold \<Rightarrow>
          (let s1 = s\<lparr>breathingPhase := Exhale\<rparr>;
               (t, s2) = setTimeout (RunPhase cycle Exhale) 4000 s1
           in s2\<lparr>breathingTimerRef := Some t\<rparr>)
      | Exhale \<Rightarrow>
          (let c = cycle + 1;
               s1 = s\<lparr>breathingCycle := c\<rparr>
           in if c \<ge> BREATHING_CYCLES_REQUIRED then s1\<lparr>breathingPhase := Done\<rparr>
              else
                (let s2 = s1\<lparr>breathingPhase := Inhale\<rparr>;
                     (t, s3) = setTimeout (RunPhase c Inhale) 4000 s2
                 in s3\<lparr>breathingTimerRef := Some t\<rparr>))
      | Done \<Rightarrow> s)"

definition triggerAlarm :: "(nat \<Rightarrow> real) \<Rightarrow> alarm \<Rightarrow> app_state \<Rightarrow> app_state" where
  "triggerAlarm rng al s =
     (let (problem, n1) = generateMathProblem rng (randCount s);
          target = nth_opt AFFIRMATIONS (randomInt (rng n1) (length AFFIRMATIONS));
          s1 = s\<lparr>activeAlarm := Some al,
                 mathProblem := problem,
                 userAnswer := [],
                 affirmationText := [],
                 targetAffirmation := target,
                 wrongAnswer := False,
                 shakeCount := 0,
                 alarmScreenVisible := True,
                 randCount := n1 + 1,
                 triggerLog := triggerLog s @ [alarm_id al]\<rparr>;
          s2 = (if dismissType al = Breathing then startBreathingExercise s1 else s1)
      in playAlarmSound (wakeIntensity al) (sound al) s2)"

definition promptBedtime :: "js_date \<Rightarrow> app_state \<Rightarrow> app_state" where
  \<comment> \<open>The four lines every dismissal handler runs: store the wake time, show the bedtime
      prompt with its default of 22:00.\<close>
  "promptBedtime now s =
     s\<lparr>pendingWakeTime := Some now, bedtimeHour := 22, bedtimeMinute := 0,
       bedtimeModalVisible := True\<rparr>"

definition disableOneTimeAlarm :: "app_state \<Rightarrow> app_state" where
  \<comment> \<open>The block \<^verbatim>\<open>if (activeAlarm && activeAlarm.days.every((d) => !d)) setAlarms(...)\<close>
      every dismissal handler runs.\<close>
  "disableOneTimeAlarm s =
     (case activeAlarm s of
        None \<Rightarrow> s
      | Some act \<Rightarrow>
          if list_all (\<lambda>d. \<not> d) (days act)
          then setAlarms (map (\<lambda>a. if alarm_id a = alarm_id act then a\<lparr>enabled := False\<rparr> else a)
                            (alarms s)) s
          else s)"

definition handleShakeDismiss :: "js_date \<Rightarrow> app_state \<Rightarrow> app_state" where
  "handleShakeDismiss now s =
     (let s1 = stopAlarmSound s;
          s2 = s1\<lparr>alarmScreenVisible := False, shakeCount := 0\<rparr>;
          s3 = promptBedtime now s2;
          s4 = disableOneTimeAlarm s3
      in s4\<lparr>activeAlarm := None\<rparr>)"

definition handleSimpleDismiss :: "js_date \<Rightarrow> app_state \<Rightarrow> app_state" where
  "handleSimpleDismiss now s =
     (let s1 = stopAlarmSound s;
          s2 = s1\<lparr>alarmScreenVisible := False\<rparr>;
          s3 = promptBedtime now s2;
          s4 = disableOneTimeAlarm s3
      in s4\<lparr>activeAlarm := None\<rparr>)"

definition handleBreathingDismiss :: "js_date \<Rightarrow> app_state \<Rightarrow> app_state" where
  "handleBreathingDismiss now s =
     (let s0 = (case breathingTimerRef s of
                  Some t \<Rightarrow> (clearTimeout t s)\<lparr>breathingTimerRef := None\<rparr>
                | None \<Rightarrow> s);
          s1 = stopAlarmSound s0;
          s2 = s1\<lparr>alarmScreenVisible := False\<rparr>;
          s3 = promptBedtime now s2;
          s4 = disableOneTimeAlarm s3
      in s4\<lparr>activeAlarm := None\<rparr>)"

definition handleAffirmationDismiss :: "js_date \<Rightarrow> app_state \<Rightarrow> app_state" where
  \<comment> \<open>With no target phrase the comparison throws before any update.\<close>
  "handleAffirmationDismiss now s =
     (case targetAffirmation s of
        None \<Rightarrow> s
      | Some target \<Rightarrow>
          if trim (toLowerCase (affirmationText s)) = toLowerCase target then
            (let s1 = stopAlarmSound s;
                 s2 = s1\<lparr>alarmScreenVisible := False, affirmationText := []\<rparr>;
                 s3 = promptBedtime now s2;
                 s4 = disableOneTimeAlarm s3
             in s4\<lparr>activeAlarm := None\<rparr>)
          else
            (let s1 = s\<lparr>wrongAnswer := True\<rparr>;
                 (t, s2) = setTimeout ClearWrong 500 s1
             in s2))"

definition handleDismissAlarm :: "js_date \<Rightarrow> app_state \<Rightarrow> app_state" where
  \<comment> \<open>The math mission. \<^verbatim>\<open>NaN\<close> is equal to no number.\<close>
  "handleDismissAlarm now s =
     (let ans = parseInt (userAnswer s) in
      if ans = Some (answer (mathProblem s)) then
        (let s1 = stopAlarmSound s;
             s2 = s1\<lparr>alarmScreenVisible := False, userAnswer := []\<rparr>;
             s3 = promptBedtime now s2;
             s4 = disableOneTimeAlarm s3
         in s4\<lparr>activeAlarm := None\<rparr>)
      else
        (let s1 = s\<lparr>wrongAnswer := True, userAnswer := []\<rparr>;
             (t, s2) = setTimeout ClearWrong 500 s1
         in s2))"

definition handleSnoozeAlarm :: "app_state \<Rightarrow> app_state" where
  "handleSnoozeAlarm s =
     (case activeAlarm s of
        None \<Rightarrow> s
      | Some act \<Rightarrow>
          if snooze act = 0 then s
          else
            (let s0 = (case breathingTimerRef s of
                         Some t \<Rightarrow> (clearTimeout t s)\<lparr>breathingTimerRef := None\<rparr>
                       | None \<Rightarrow> s);
                 s1 = stopAlarmSound s0;
                 s2 = s1\<lparr>alarmScreenVisible := False\<rparr>;
                 (t, s3) = setTimeout (SnoozeTrigger act) (snooze act * 60 * 1000) s2
             in s3\<lparr>activeAlarm := None\<rparr>))"

definition onAccelerometer :: "real \<Rightarrow> real \<Rightarrow> real \<Rightarrow> int \<Rightarrow> app_state \<Rightarrow> app_state" where
  \<comment> \<open>The accelerometer listener, subscribed only while a shake mission is on screen;
      \<open>now\<close> is \<^verbatim>\<open>Date.now()\<close>.\<close>
  "onAccelerometer x y z now s =
     (if alarmScreenVisible s \<and> (case activeAlarm s of Some act \<Rightarrow> dismissType act = Shake | None \<Rightarrow> False)
      then
        (let totalForce = sqrt (x * x + y * y + z * z) in
         if totalForce > SHAKE_THRESHOLD \<and> now - lastShakeTime s > 300 then
           (let s1 = s\<lparr>lastShakeTime := now\<rparr>;
                newCount = shakeCount s1 + 1;
                s2 = s1\<lparr>shakeCount := newCount\<rparr>
            in if newCount \<ge> REQUIRED_SHAKES then handleShakeDismiss now s2 else s2)
         else s)
      else s)"

section \<open>Trigger loop\<close>

definition checkAlarm :: "(nat \<Rightarrow> real) \<Rightarrow> js_date \<Rightarrow> alarm \<Rightarrow> app_state \<Rightarrow> app_state" where
  \<comment> \<open>The body of \<^verbatim>\<open>alarms.forEach\<close> in the trigger effect.\<close>
  "checkAlarm rng now al s =
     (let currentHour = getHours now;
          currentMinute = getMinutes now;
          currentDay = getDay now;
          timeKey = show_int currentHour @ '':'' @ show_int currentMinute
      in if enabled al then
           (if hour al = currentHour \<and> minute al = currentMinute then
              (let shouldTrigger = (list_all (\<lambda>d. \<not> d) (days al) \<or> days_at (days al) currentDay) in
               if shouldTrigger then
                 (let alarmKey = alarm_id al @ ''-'' @ timeKey in
                  if lastTriggeredRef s = alarmKey then s
                  else triggerAlarm rng al (s\<lparr>lastTriggeredRef := alarmKey\<rparr>))
               else s)
            else s)
         else s)"

definition checkAlarmTriggers :: "(nat \<Rightarrow> real) \<Rightarrow> js_date \<Rightarrow> app_state \<Rightarrow> app_state" where
  \<comment> \<open>The trigger effect, run after every tick with the new \<^verbatim>\<open>currentTime\<close>.\<close>
  "checkAlarmTriggers rng now s = foldl (\<lambda>st al. checkAlarm rng now al st) s (alarms s)"

definition fireTimeout :: "(nat \<Rightarrow> real) \<Rightarrow> nat \<Rightarrow> app_state \<Rightarrow> app_state" where
  \<comment> \<open>The timer \<open>t\<close> expires: it leaves the pending timeouts and its callback runs.\<close>
  "fireTimeout rng t s =
     (case find (\<lambda>p. timer_id p = t) (timeouts s) of
        None \<Rightarrow> s
      | Some p \<Rightarrow>
          (let s1 = s\<lparr>timeouts := filter (\<lambda>q. timer_id q \<noteq> t) (timeouts s)\<rparr>
           in case callback p of
                RunPattern pattern initialVolume isPlaying \<Rightarrow>
                  runPattern pattern initialVolume isPlaying s1
              | RunPhase cycle phase \<Rightarrow> runPhase cycle phase s1
              | SnoozeTrigger al \<Rightarrow> triggerAlarm rng al s1
              | ClearWrong \<Rightarrow> s1\<lparr>wrongAnswer := False\<rparr>))"

definition initialState :: "(nat \<Rightarrow> real) \<Rightarrow> alarm list \<Rightarrow> app_state" where
  \<comment> \<open>The state after mount, with the alarm list loaded from storage.\<close>
  "initialState rng as =
     \<lparr>alarms = as, alarmsUpdates = 0, alarmScreenVisible = False, activeAlarm = None,
      mathProblem = fst (generateMathProblem rng 0), userAnswer = [],
      wrongAnswer = False, breathingPhase = Inhale, breathingCycle = 0,
      breathingTimerRef = None, affirmationText = [],
      targetAffirmation = Some ''I am ready for a great day'', shakeCount = 0,
      lastShakeTime = 0, bedtimeModalVisible = False, bedtimeHour = 22, bedtimeMinute = 0,
      pendingWakeTime = None, soundRef = None, lastTriggeredRef = [],
      patternIntervalRef = None, patternIndexRef = 0, sounds = [], nextSound = 0,
      timeouts = [], nextTimer = 0, randCount = snd (generateMathProblem rng 0),
      triggerLog = []\<rparr>"

section \<open>What the specification says, and the inputs used below\<close>

definition minuteOfDay :: "js_date \<Rightarrow> int" where
  "minuteOfDay d = getHours d * 60 + getMinutes d"

definition spec_avgBedtime :: "int list \<Rightarrow> int" where
  \<comment> \<open>The specification's average bedtime of a list of bedtime minutes of the day: a
      value before noon counts as after midnight, the mean is rounded to the nearest
      minute (a half up), and the result is taken modulo 1440.\<close>
  "spec_avgBedtime ms =
     round (real_of_int (sum_list (map (\<lambda>m. if m < 720 then m + 1440 else m) ms))
              / real (length ms)) mod 1440"

definition clock12 :: "int \<Rightarrow> string" where
  \<comment> \<open>A minute of the day as a 12-hour clock time: the hour without a leading zero
      (12 for midnight and noon), a colon, the minute in two digits, and AM or PM.\<close>
  "clock12 m =
     (let h = m div 60;
          mi = nat (m mod 60);
          h12 = (if h mod 12 = 0 then 12 else h mod 12)
      in show_int h12 @ '':'' @ [digit_char (mi div 10), digit_char (mi mod 10)] @ '' ''
           @ (if 12 \<le> h then ''PM'' else ''AM''))"

definition spec_avgWake :: "int list \<Rightarrow> int" where
  \<comment> \<open>The specification's average wake time of a list of wake minutes of the day: the
      mean, rounded to the nearest minute (a half up).\<close>
  "spec_avgWake ms = round (real_of_int (sum_list ms) / real (length ms))"

definition statsBedtime :: "js_error + sleep_stats option \<Rightarrow> string option" where
  \<comment> \<open>the average bedtime shown by a result of \<open>getSleepStats\<close>, if there is one\<close>
  "statsBedtime r = (case r of Inr (Some st) \<Rightarrow> Some (avgBedtime st) | _ \<Rightarrow> None)"

definition night1 :: sleep_entry where
  \<comment> \<open>to bed on day 0 at 23:30, up on day 1 at 07:00\<close>
  "night1 = \<lparr>entry_id = ''1'', bedtime = 84600000, wakeTime = 111600000, sleepDuration = 450\<rparr>"

definition night2 :: sleep_entry where
  \<comment> \<open>to bed on day 2 at 00:15, up on day 2 at 07:15\<close>
  "night2 = \<lparr>entry_id = ''2'', bedtime = 173700000, wakeTime = 198900000, sleepDuration = 420\<rparr>"

definition spec_wakeMinutes :: "sleep_entry list \<Rightarrow> int" where
  \<comment> \<open>The specification's suggested wake time, in minutes of the day: eight hours after the
      average bedtime of the given nights.\<close>
  "spec_wakeMinutes recent =
     (spec_avgBedtime (map (\<lambda>e. minuteOfDay (bedtime e)) recent) + 480) mod 1440"

definition weekNights :: "sleep_entry list" where
  "weekNights = [night1, night2, night1, night2, night1, night2, night1]"

definition lateNights :: "sleep_entry list" where
  \<comment> \<open>seven nights, each to bed at 22:58 and up at 07:00\<close>
  "lateNights =
     replicate 7 \<lparr>entry_id = ''3'', bedtime = 82680000, wakeTime = 111600000, sleepDuration = 482\<rparr>"

definition rng_low :: "nat \<Rightarrow> real" where
  \<comment> \<open>a generator whose draws give the problem \<open>42 - 17\<close> each time\<close>
  "rng_low n = (if n mod 3 = 0 then 0.5 else if n mod 3 = 1 then 0.25 else 0.55)"

definition rng_high :: "nat \<Rightarrow> real" where
  \<comment> \<open>a generator whose draws give the problem \<open>79 - 30\<close>\<close>
  "rng_high n = (if n = 0 then 0.5 else 0.99)"

definition oneShotAlarm :: "string \<Rightarrow> int \<Rightarrow> int \<Rightarrow> dismiss_type \<Rightarrow> alarm" where
  \<comment> \<open>an enabled alarm with no weekday set\<close>
  "oneShotAlarm i h m d =
     \<lparr>alarm_id = i, hour = h, minute = m,
      days = [False, False, False, False, False, False, False], enabled = True, label = [],
      snooze = 10, wakeIntensity = Energetic, sound = Ocean, dismissType = d\<rparr>"

definition mondayAlarm :: alarm where
  \<comment> \<open>an enabled alarm repeating on Mondays at 07:00\<close>
  "mondayAlarm =
     \<lparr>alarm_id = ''1'', hour = 7, minute = 0,
      days = [False, True, False, False, False, False, False], enabled = True, label = [],
      snooze = 10, wakeIntensity = Energetic, sound = Sunrise, dismissType = Simple\<rparr>"

definition monday :: "int \<Rightarrow> int \<Rightarrow> int \<Rightarrow> js_date" where
  \<comment> \<open>Monday 1970-01-05 at the given hour, minute and second\<close>
  "monday h m sec = 4 * 86400000 + h * 3600000 + m * 60000 + sec * 1000"

definition mathSession :: app_state where
  \<comment> \<open>the state after the tick of Monday 07:00:00 has triggered a math alarm\<close>
  "mathSession =
     checkAlarmTriggers rng_low (monday 7 0 0)
       (initialState rng_low [oneShotAlarm ''1'' 7 0 Math])"

definition twoDue :: "alarm list" where
  \<comment> \<open>two alarms due in the same minute\<close>
  "twoDue = [oneShotAlarm ''1'' 7 0 Simple, oneShotAlarm ''2'' 7 0 Simple]"

definition twoApart :: "alarm list" where
  \<comment> \<open>two alarms due one minute apart\<close>
  "twoApart = [oneShotAlarm ''1'' 7 0 Simple, oneShotAlarm ''2'' 7 1 Simple]"

definition firstSession :: app_state where
  \<comment> \<open>the state after the tick of Monday 07:00:00 over \<open>twoApart\<close>\<close>
  "firstSession = checkAlarmTriggers rng_low (monday 7 0 0) (initialState rng_low twoApart)"

definition oneShotDisabled :: "alarm \<Rightarrow> app_state \<Rightarrow> app_state \<Rightarrow> bool" where
  \<comment> \<open>The one-shot rule between a state and its successor: the alarm list was written
      once, and the write turned off the alarms carrying the id of \<open>act\<close> and nothing else.\<close>
  "oneShotDisabled act s s' =
     (alarmsUpdates s' = alarmsUpdates s + 1 \<and>
      length (alarms s') = length (alarms s) \<and>
      (\<forall>i < length (alarms s).
         alarms s' ! i =
           (if alarm_id (alarms s ! i) = alarm_id act then (alarms s ! i)\<lparr>enabled := False\<rparr>
            else alarms s ! i)))"

definition shakeReady :: app_state where
  \<comment> \<open>A one-shot alarm is on screen; the answer and the phrase typed are the right ones and
      four shakes are counted.\<close>
  "shakeReady =
     (checkAlarmTriggers rng_low (monday 7 0 0)
        (initialState rng_low [oneShotAlarm ''1'' 7 0 Shake, oneShotAlarm ''2'' 8 30 Simple]))
       \<lparr>userAnswer := ''25'', affirmationText := '' I am Grateful and Energized  '',
        shakeCount := 4\<rparr>"

definition patternTimerFires :: "(nat \<Rightarrow> real) \<Rightarrow> app_state \<Rightarrow> app_state" where
  \<comment> \<open>a phase boundary: the timer held in \<^verbatim>\<open>patternIntervalRef\<close> expires\<close>
  "patternTimerFires rng s =
     (case patternIntervalRef s of Some t \<Rightarrow> fireTimeout rng t s | None \<Rightarrow> s)"

definition soundVolume :: "nat \<Rightarrow> app_state \<Rightarrow> real option" where
  \<comment> \<open>the volume of the sound with handle \<open>h\<close>, if it is loaded\<close>
  "soundVolume h s = map_option volume (find (\<lambda>x. sound_handle x = h) (sounds s))"

definition patternDelay :: "app_state \<Rightarrow> int option" where
  \<comment> \<open>the delay of the pending pattern timer\<close>
  "patternDelay s =
     (case patternIntervalRef s of
        Some t \<Rightarrow> map_option delay (find (\<lambda>p. timer_id p = t) (timeouts s))
      | None \<Rightarrow> None)"

definition intensityVolume :: "wake_intensity \<Rightarrow> real" where
  \<comment> \<open>the specification's initial volume of each intensity\<close>
  "intensityVolume i =
     (case i of Whisper \<Rightarrow> 0.3 | Gentle \<Rightarrow> 0.5 | Moderate \<Rightarrow> 0.75 | Energetic \<Rightarrow> 1.0)"

definition freshIds :: "app_state \<Rightarrow> bool" where
  \<comment> \<open>timer ids and sound handles are handed out in increasing order: those in use are
      below the next ones\<close>
  "freshIds s =
     (list_all (\<lambda>p. timer_id p < nextTimer s) (timeouts s) \<and>
      list_all (\<lambda>x. sound_handle x < nextSound s) (sounds s))"

definition patternState :: "wake_intensity \<Rightarrow> alarm_sound \<Rightarrow> nat list \<Rightarrow> app_state \<Rightarrow> nat \<Rightarrow> app_state" where
  \<comment> \<open>the state \<open>k\<close> phase boundaries after \<open>playAlarmSound\<close> started a sound with a pattern
      in the state \<open>s\<close>, written out\<close>
  "patternState i t pattern s k =
     s\<lparr>sounds := sounds s @
          [\<lparr>sound_handle = nextSound s,
            volume = (if k = 0 \<or> odd k then intensityVolume i else 0.05),
            rate = fst (SOUND_CONFIGS t)\<rparr>],
       nextSound := nextSound s + 1,
       soundRef := Some (nextSound s),
       patternIndexRef := k,
       timeouts := timeouts s @
          [\<lparr>timer_id = nextTimer s + k,
            delay = int (pattern ! ((k - 1) mod length pattern)),
            callback = RunPattern pattern (intensityVolume i) (even k)\<rparr>],
       nextTimer := nextTimer s + k + 1,
       patternIntervalRef := Some (nextTimer s + k)\<rparr>"

section \<open>Arithmetic of the JavaScript operations\<close>

lemma js_round_div:
  assumes "0 < n"
  shows "js_round (real_of_int t / real n) = (2 * t + int n) div (2 * int n)"
proof -
  have "real_of_int t / real n + 1 / 2 = real_of_int (2 * t + int n) / real_of_int (2 * int n)"
    using assms by (simp add: field_simps)
  then show ?thesis
    unfolding js_round_def by (simp only: floor_divide_of_int_eq)
qed

lemma js_round_eq_round: "js_round x = round x"
  by (simp add: js_round_def round_def)

lemma js_floor_div: "js_floor (real_of_int a / real_of_int b) = a div b"
  unfolding js_floor_def by (rule floor_divide_of_int_eq)

lemma js_floor_div60 [simp]: "js_floor (real_of_int a / 60) = a div 60"
  using js_floor_div [of a 60] by simp

lemma js_rem_nonneg: "0 \<le> a \<Longrightarrow> 0 < b \<Longrightarrow> js_rem a b = a mod b"
  by (cases "a = 0") (simp_all add: js_rem_def)

lemma foldl_add_sum_list: "foldl (\<lambda>sum d. sum + d) a xs = (a::int) + sum_list xs"
  by (induction xs arbitrary: a) simp_all

lemma foldl_add_map: "foldl (\<lambda>sum e. sum + f e) a xs = (a::int) + sum_list (map f xs)"
  by (induction xs arbitrary: a) simp_all

lemma minuteOfDay_range: "0 \<le> minuteOfDay d \<and> minuteOfDay d < 1440"
proof -
  have "0 \<le> getHours d" "getHours d < 24" "0 \<le> getMinutes d" "getMinutes d < 60"
    by (simp_all add: getHours_def getMinutes_def)
  then show ?thesis unfolding minuteOfDay_def by linarith
qed

lemma bedtimeMins_eq: "bedtimeMins e = (let m = minuteOfDay (bedtime e) in if m < 720 then m + 1440 else m)"
  by (simp add: bedtimeMins_def minuteOfDay_def Let_def)

lemma bedtimeMins_nonneg: "0 \<le> bedtimeMins e"
  using minuteOfDay_range [of "bedtime e"] by (simp add: bedtimeMins_eq Let_def)

lemma sum_list_nonneg_int: "(\<And>x. 0 \<le> f x) \<Longrightarrow> 0 \<le> (sum_list (map f xs) :: int)"
  by (induction xs) simp_all

lemma round_mean_nonneg:
  assumes "0 \<le> t"
  shows "0 \<le> round (real_of_int t / real n)"
proof -
  have "0 \<le> real_of_int t / real n" using assms by simp
  then show ?thesis by (simp add: round_def)
qed

section \<open>Sleep statistics\<close>

lemma foldl_pick_max:
  "sleepDuration (foldl (\<lambda>mx e. if sleepDuration e > sleepDuration mx then e else mx) x xs)
     = Max (sleepDuration ` set (x # xs))"
proof (induction xs arbitrary: x)
  case Nil
  show ?case by simp
next
  case (Cons y ys)
  show ?case
  proof (cases "sleepDuration y > sleepDuration x")
    case True
    then have "max (sleepDuration x) (Max (sleepDuration ` set (y # ys))) = Max (sleepDuration ` set (y # ys))"
      by (simp add: max_def Max_ge_iff)
    with True Cons.IH [of y] show ?thesis by simp
  next
    case False
    have "Max (sleepDuration ` set (x # y # ys)) = Max (sleepDuration ` set (x # ys))"
    proof (cases ys)
      case Nil
      with False show ?thesis by (simp add: max_def)
    next
      case (Cons z zs)
      with False show ?thesis by (simp add: max.left_commute max_absorb1 max.assoc)
    qed
    with False Cons.IH [of x] show ?thesis by simp
  qed
qed


lemma foldl_pick_min:
  "sleepDuration (foldl (\<lambda>mn e. if sleepDuration e < sleepDuration mn then e else mn) x xs)
     = Min (sleepDuration ` set (x # xs))"
proof (induction xs arbitrary: x)
  case Nil
  show ?case by simp
next
  case (Cons y ys)
  show ?case
  proof (cases "sleepDuration y < sleepDuration x")
    case True
    then have "min (sleepDuration x) (Min (sleepDuration ` set (y # ys))) = Min (sleepDuration ` set (y # ys))"
      by (simp add: min_def Min_le_iff)
    with True Cons.IH [of y] show ?thesis by simp
  next
    case False
    have "Min (sleepDuration ` set (x # y # ys)) = Min (sleepDuration ` set (x # ys))"
    proof (cases ys)
      case Nil
      with False show ?thesis by (simp add: min_def)
    next
      case (Cons z zs)
      with False show ?thesis by (simp add: min.left_commute min_absorb1 min.assoc)
    qed
    with False Cons.IH [of x] show ?thesis by simp
  qed
qed

lemma getSleepStats_Cons:
  "\<exists>st. getSleepStats (x # xs) = Inr (Some st) \<and>
        totalNights st = length (x # xs) \<and>
        duration (best st) = Max (sleepDuration ` set (x # xs)) \<and>
        duration (worst st) = Min (sleepDuration ` set (x # xs)) \<and>
        average st = round (real_of_int (sum_list (map sleepDuration (x # xs))) / real (length (x # xs)))"
  unfolding getSleepStats_def Let_def
  by (simp add: foldl_pick_max foldl_pick_min foldl_add_sum_list js_round_eq_round
        del: Max_insert Min_insert set_simps)

lemma avgBedtimeMinutes_refines:
  assumes "xs \<noteq> []"
  shows "js_rem (js_round (real_of_int (foldl (\<lambda>sum m. sum + m) 0 (map bedtimeMins xs))
                             / real (length (map bedtimeMins xs)))) 1440
           = spec_avgBedtime (map (\<lambda>e. minuteOfDay (bedtime e)) xs)"
proof -
  have eq: "map ((\<lambda>m. if m < 720 then m + 1440 else m) \<circ> (\<lambda>e. minuteOfDay (bedtime e))) xs
              = map bedtimeMins xs"
    by (simp add: bedtimeMins_eq Let_def)
  have nonneg: "0 \<le> sum_list (map bedtimeMins xs)"
    by (rule sum_list_nonneg_int) (rule bedtimeMins_nonneg)
  have "0 \<le> round (real_of_int (sum_list (map bedtimeMins xs)) / real (length xs))"
    by (rule round_mean_nonneg) (rule nonneg)
  then have "js_rem (round (real_of_int (sum_list (map bedtimeMins xs)) / real (length xs))) 1440
               = round (real_of_int (sum_list (map bedtimeMins xs)) / real (length xs)) mod 1440"
    by (simp add: js_rem_nonneg)
  then show ?thesis
    unfolding spec_avgBedtime_def
    by (simp add: foldl_add_sum_list js_round_eq_round eq)
qed

lemma spec_avgBedtime_range: "0 \<le> spec_avgBedtime ms \<and> spec_avgBedtime ms < 1440"
  by (simp add: spec_avgBedtime_def)

lemma statsBedtime_Cons:
  "statsBedtime (getSleepStats (x # xs)) =
     Some (let m = spec_avgBedtime (map (\<lambda>e. minuteOfDay (bedtime e)) (x # xs))
           in formatSettingsTime (m div 60) (m mod 60))"
proof -
  let ?m = "spec_avgBedtime (map (\<lambda>e. minuteOfDay (bedtime e)) (x # xs))"
  have m: "js_rem (js_round (real_of_int (foldl (\<lambda>sum m. sum + m) 0 (map bedtimeMins (x # xs)))
                             / real (length (map bedtimeMins (x # xs))))) 1440 = ?m"
    by (rule avgBedtimeMinutes_refines) simp
  have r: "js_rem ?m 60 = ?m mod 60"
    using spec_avgBedtime_range [of "map (\<lambda>e. minuteOfDay (bedtime e)) (x # xs)"]
    by (simp add: js_rem_nonneg)
  show ?thesis
    unfolding getSleepStats_def statsBedtime_def Let_def
    using m r by (simp del: foldl_Cons list.map)
qed

text \<open>
  Claim C8, amended. The average bedtime shown by \<open>getSleepStats\<close> is the specification's
  average (minutes of the day, a time before noon taken as after midnight, the mean
  rounded to the nearest minute with a half going up, modulo 1440) printed as a 12-hour
  clock time. For the two bedtimes 23:30 and 00:15 the mean is 1432.5, rounded to 1433:
  the result is 23:53, printed \<open>11:53 PM\<close>.
\<close>

theorem avgBedtime_midnight_aware:
  "(sleepData \<noteq> [] \<longrightarrow>
      statsBedtime (getSleepStats sleepData) =
        Some (let m = spec_avgBedtime (map (\<lambda>e. minuteOfDay (bedtime e)) sleepData)
              in formatSettingsTime (m div 60) (m mod 60))) \<and>
   statsBedtime (getSleepStats [night1, night2]) = Some ''11:53 PM''"
proof
  show "sleepData \<noteq> [] \<longrightarrow>
      statsBedtime (getSleepStats sleepData) =
        Some (let m = spec_avgBedtime (map (\<lambda>e. minuteOfDay (bedtime e)) sleepData)
              in formatSettingsTime (m div 60) (m mod 60))"
    by (cases sleepData) (simp_all only: statsBedtime_Cons list.distinct simp_thms)
  show "statsBedtime (getSleepStats [night1, night2]) = Some ''11:53 PM''"
    by code_simp
qed

theorem avgBedtime_midnight_aware_witness:
  "[night1, night2] \<noteq> [] \<and>
   statsBedtime (getSleepStats [night1, night2]) =
     Some (formatSettingsTime (1433 div 60) (1433 mod 60)) \<and>
   spec_avgBedtime (map (\<lambda>e. minuteOfDay (bedtime e)) [night1, night2]) = 1433"
proof -
  have m: "spec_avgBedtime (map (\<lambda>e. minuteOfDay (bedtime e)) [night1, night2]) = 1433"
    by code_simp
  show ?thesis
    using avgBedtime_midnight_aware [of "[night1, night2]"] m by (simp add: Let_def)
qed

text \<open>
  The claim as written gives 23:52 for these two nights; the code gives 23:53.
\<close>

theorem avgBedtime_two_nights_counterexample:
  "statsBedtime (getSleepStats [night1, night2]) = Some ''11:53 PM'' \<and>
   minuteOfDay (bedtime night1) = 23 * 60 + 30 \<and> minuteOfDay (bedtime night2) = 0 * 60 + 15"
  by code_simp

text \<open>
  The two time strings of the statistics follow the 12-hour format, and the best and the
  worst night are the first entries with the longest and the shortest duration.
\<close>

lemma show_nat_digit: "n < 10 \<Longrightarrow> show_nat n = [digit_char n]"
  by (subst show_nat.simps) simp

lemma show_nat_two_digits:
  assumes "10 \<le> n" "n < 100"
  shows "show_nat n = [digit_char (n div 10), digit_char (n mod 10)]"
proof -
  from assms have "n div 10 < 10" by simp
  then have "show_nat (n div 10) = [digit_char (n div 10)]" by (rule show_nat_digit)
  with assms show ?thesis by (subst show_nat.simps) simp
qed

lemma padStart_minute:
  assumes "0 \<le> v" "v < 60"
  shows "padStart 2 (CHR ''0'') (show_int v)
           = [digit_char (nat v div 10), digit_char (nat v mod 10)]"
proof (cases "nat v < 10")
  case True
  then have "show_nat (nat v) = [digit_char (nat v)]" by (rule show_nat_digit)
  moreover have "digit_char 0 = CHR ''0''" by (simp add: digit_char_def)
  ultimately show ?thesis
    using assms True by (simp add: padStart_def show_int_def)
next
  case False
  with assms have "10 \<le> nat v" "nat v < 100" by simp_all
  then have "show_nat (nat v) = [digit_char (nat v div 10), digit_char (nat v mod 10)]"
    by (rule show_nat_two_digits)
  then show ?thesis
    using assms by (simp add: padStart_def show_int_def)
qed

lemma formatSettingsTime_clock12:
  assumes "0 \<le> m"
  shows "formatSettingsTime (m div 60) (m mod 60) = clock12 m"
proof -
  have h: "0 \<le> m div 60" using assms by simp
  have r: "js_rem (m div 60) 12 = m div 60 mod 12"
    using h by (simp add: js_rem_nonneg)
  have p: "padStart 2 (CHR ''0'') (show_int (m mod 60))
             = [digit_char (nat (m mod 60) div 10), digit_char (nat (m mod 60) mod 10)]"
    by (rule padStart_minute) simp_all
  show ?thesis
    unfolding formatSettingsTime_def clock12_def Let_def r p by simp
qed

lemma foldl_pick_max_first:
  "\<exists>i < length (x # xs).
      foldl (\<lambda>mx e. if sleepDuration e > sleepDuration mx then e else mx) (x::sleep_entry) xs = (x # xs) ! i \<and>
      (\<forall>k < length (x # xs). sleepDuration ((x # xs) ! k) \<le> sleepDuration ((x # xs) ! i)) \<and>
      (\<forall>k < i. sleepDuration ((x # xs) ! k) < sleepDuration ((x # xs) ! i))"
proof (induction xs rule: rev_induct)
  case Nil
  show ?case by simp
next
  case (snoc y ys)
  let ?f = "\<lambda>mx e. if sleepDuration e > sleepDuration mx then e else (mx::sleep_entry)"
  from snoc obtain i where i: "i < length (x # ys)"
    and r: "foldl ?f x ys = (x # ys) ! i"
    and mx: "\<forall>k < length (x # ys). sleepDuration ((x # ys) ! k) \<le> sleepDuration ((x # ys) ! i)"
    and fst: "\<forall>k < i. sleepDuration ((x # ys) ! k) < sleepDuration ((x # ys) ! i)"
    by blast
  have nth_old: "\<And>k. k < length (x # ys) \<Longrightarrow> (x # ys @ [y]) ! k = (x # ys) ! k"
    by (metis append_Cons nth_append)
  have nth_new: "(x # ys @ [y]) ! length (x # ys) = y"
    by (metis append_Cons nth_append_length)
  show ?case
  proof (cases "sleepDuration y > sleepDuration ((x # ys) ! i)")
    case True
    have "foldl ?f x (ys @ [y]) = y" using r True by simp
    moreover have "\<forall>k < length (x # ys @ [y]). sleepDuration ((x # ys @ [y]) ! k) \<le> sleepDuration y"
    proof (intro allI impI)
      fix k assume "k < length (x # ys @ [y])"
      then consider "k < length (x # ys)" | "k = length (x # ys)" by fastforce
      then show "sleepDuration ((x # ys @ [y]) ! k) \<le> sleepDuration y"
      proof cases
        case 1
        with mx True nth_old [OF 1] show ?thesis by fastforce
      next
        case 2
        with nth_new show ?thesis by simp
      qed
    qed
    moreover have "\<forall>k < length (x # ys). sleepDuration ((x # ys @ [y]) ! k) < sleepDuration y"
    proof (intro allI impI)
      fix k assume k: "k < length (x # ys)"
      with mx True nth_old [OF k] show "sleepDuration ((x # ys @ [y]) ! k) < sleepDuration y"
        by fastforce
    qed
    ultimately show ?thesis
      using nth_new by (intro exI [of _ "length (x # ys)"]) simp
  next
    case False
    have "foldl ?f x (ys @ [y]) = (x # ys @ [y]) ! i" using r False nth_old [OF i] by simp
    moreover have "\<forall>k < length (x # ys @ [y]).
        sleepDuration ((x # ys @ [y]) ! k) \<le> sleepDuration ((x # ys @ [y]) ! i)"
    proof (intro allI impI)
      fix k assume "k < length (x # ys @ [y])"
      then consider "k < length (x # ys)" | "k = length (x # ys)" by fastforce
      then show "sleepDuration ((x # ys @ [y]) ! k) \<le> sleepDuration ((x # ys @ [y]) ! i)"
      proof cases
        case 1
        with mx nth_old [OF 1] nth_old [OF i] show ?thesis by simp
      next
        case 2
        with nth_new False nth_old [OF i] show ?thesis by simp
      qed
    qed
    moreover have "\<forall>k < i. sleepDuration ((x # ys @ [y]) ! k) < sleepDuration ((x # ys @ [y]) ! i)"
    proof (intro allI impI)
      fix k assume k: "k < i"
      with i have k': "k < length (x # ys)" by simp
      from fst k nth_old [OF k'] nth_old [OF i]
      show "sleepDuration ((x # ys @ [y]) ! k) < sleepDuration ((x # ys @ [y]) ! i)" by simp
    qed
    ultimately show ?thesis
      using i by (intro exI [of _ i]) simp
  qed
qed


lemma foldl_pick_min_first:
  "\<exists>i < length (x # xs).
      foldl (\<lambda>mx e. if sleepDuration e < sleepDuration mx then e else mx) (x::sleep_entry) xs = (x # xs) ! i \<and>
      (\<forall>k < length (x # xs). sleepDuration ((x # xs) ! i) \<le> sleepDuration ((x # xs) ! k)) \<and>
      (\<forall>k < i. sleepDuration ((x # xs) ! i) < sleepDuration ((x # xs) ! k))"
proof (induction xs rule: rev_induct)
  case Nil
  show ?case by simp
next
  case (snoc y ys)
  let ?f = "\<lambda>mx e. if sleepDuration e < sleepDuration mx then e else (mx::sleep_entry)"
  from snoc obtain i where i: "i < length (x # ys)"
    and r: "foldl ?f x ys = (x # ys) ! i"
    and mx: "\<forall>k < length (x # ys). sleepDuration ((x # ys) ! i) \<le> sleepDuration ((x # ys) ! k)"
    and fst: "\<forall>k < i. sleepDuration ((x # ys) ! i) < sleepDuration ((x # ys) ! k)"
    by blast
  have nth_old: "\<And>k. k < length (x # ys) \<Longrightarrow> (x # ys @ [y]) ! k = (x # ys) ! k"
    by (metis append_Cons nth_append)
  have nth_new: "(x # ys @ [y]) ! length (x # ys) = y"
    by (metis append_Cons nth_append_length)
  show ?case
  proof (cases "sleepDuration y < sleepDuration ((x # ys) ! i)")
    case True
    have "foldl ?f x (ys @ [y]) = y" using r True by simp
    moreover have "\<forall>k < length (x # ys @ [y]). sleepDuration y \<le> sleepDuration ((x # ys @ [y]) ! k)"
    proof (intro allI impI)
      fix k assume "k < length (x # ys @ [y])"
      then consider "k < length (x # ys)" | "k = length (x # ys)" by fastforce
      then show "sleepDuration y \<le> sleepDuration ((x # ys @ [y]) ! k)"
      proof cases
        case 1
        with mx True nth_old [OF 1] show ?thesis by fastforce
      next
        case 2
        with nth_new show ?thesis by simp
      qed
    qed
    moreover have "\<forall>k < length (x # ys). sleepDuration y < sleepDuration ((x # ys @ [y]) ! k)"
    proof (intro allI impI)
      fix k assume k: "k < length (x # ys)"
      with mx True nth_old [OF k] show "sleepDuration y < sleepDuration ((x # ys @ [y]) ! k)"
        by fastforce
    qed
    ultimately show ?thesis
      using nth_new by (intro exI [of _ "length (x # ys)"]) simp
  next
    case False
    have "foldl ?f x (ys @ [y]) = (x # ys @ [y]) ! i" using r False nth_old [OF i] by simp
    moreover have "\<forall>k < length (x # ys @ [y]).
        sleepDuration ((x # ys @ [y]) ! i) \<le> sleepDuration ((x # ys @ [y]) ! k)"
    proof (intro allI impI)
      fix k assume "k < length (x # ys @ [y])"
      then consider "k < length (x # ys)" | "k = length (x # ys)" by fastforce
      then show "sleepDuration ((x # ys @ [y]) ! i) \<le> sleepDuration ((x # ys @ [y]) ! k)"
      proof cases
        case 1
        with mx nth_old [OF 1] nth_old [OF i] show ?thesis by simp
      next
        case 2
        with nth_new False nth_old [OF i] show ?thesis by simp
      qed
    qed
    moreover have "\<forall>k < i. sleepDuration ((x # ys @ [y]) ! i) < sleepDuration ((x # ys @ [y]) ! k)"
    proof (intro allI impI)
      fix k assume k: "k < i"
      with i have k': "k < length (x # ys)" by simp
      from fst k nth_old [OF k'] nth_old [OF i]
      show "sleepDuration ((x # ys @ [y]) ! i) < sleepDuration ((x # ys @ [y]) ! k)" by simp
    qed
    ultimately show ?thesis
      using i by (intro exI [of _ i]) simp
  qed
qed

lemma wakeMins_eq: "wakeMins e = minuteOfDay (wakeTime e)"
  by (simp add: wakeMins_def minuteOfDay_def Let_def)

lemma avgWakeMinutes_refines:
  "js_round (real_of_int (foldl (\<lambda>sum m. sum + m) 0 (map wakeMins xs))
               / real (length (map wakeMins xs)))
     = spec_avgWake (map (\<lambda>e. minuteOfDay (wakeTime e)) xs)"
proof -
  have "wakeMins = (\<lambda>e. minuteOfDay (wakeTime e))"
    by (rule ext) (rule wakeMins_eq)
  then show ?thesis
    by (simp add: spec_avgWake_def foldl_add_sum_list js_round_eq_round)
qed

lemma spec_avgWake_nonneg: "0 \<le> spec_avgWake (map (\<lambda>e. minuteOfDay (wakeTime e)) xs)"
proof -
  have "0 \<le> sum_list (map (\<lambda>e. minuteOfDay (wakeTime e)) xs)"
    by (rule sum_list_nonneg_int) (simp add: minuteOfDay_range)
  then show ?thesis
    unfolding spec_avgWake_def by (rule round_mean_nonneg)
qed

lemma getSleepStats_Cons_record:
  "getSleepStats (x # xs) =
     Inr (Some
       \<lparr>average = round (real_of_int (sum_list (map sleepDuration (x # xs))) / real (length (x # xs))),
        best = \<lparr>duration = sleepDuration
                   (foldl (\<lambda>mx e. if sleepDuration e > sleepDuration mx then e else mx) x xs),
                date = wakeTime
                   (foldl (\<lambda>mx e. if sleepDuration e > sleepDuration mx then e else mx) x xs)\<rparr>,
        worst = \<lparr>duration = sleepDuration
                   (foldl (\<lambda>mn e. if sleepDuration e < sleepDuration mn then e else mn) x xs),
                 date = wakeTime
                   (foldl (\<lambda>mn e. if sleepDuration e < sleepDuration mn then e else mn) x xs)\<rparr>,
        totalNights = length (x # xs),
        avgBedtime = clock12 (spec_avgBedtime (map (\<lambda>e. minuteOfDay (bedtime e)) (x # xs))),
        avgWakeTime = clock12 (spec_avgWake (map (\<lambda>e. minuteOfDay (wakeTime e)) (x # xs)))\<rparr>)"
proof -
  let ?b = "spec_avgBedtime (map (\<lambda>e. minuteOfDay (bedtime e)) (x # xs))"
  let ?w = "spec_avgWake (map (\<lambda>e. minuteOfDay (wakeTime e)) (x # xs))"
  have b: "js_rem (js_round (real_of_int (foldl (\<lambda>sum m. sum + m) 0 (map bedtimeMins (x # xs)))
                             / real (length (map bedtimeMins (x # xs))))) 1440 = ?b"
    by (rule avgBedtimeMinutes_refines) simp
  have w: "js_round (real_of_int (foldl (\<lambda>sum m. sum + m) 0 (map wakeMins (x # xs)))
               / real (length (map wakeMins (x # xs)))) = ?w"
    by (rule avgWakeMinutes_refines)
  have d: "js_round (real_of_int (foldl (\<lambda>sum d. sum + d) 0 (map sleepDuration (x # xs)))
               / real (length (map sleepDuration (x # xs))))
             = round (real_of_int (sum_list (map sleepDuration (x # xs))) / real (length (x # xs)))"
    by (simp add: foldl_add_sum_list js_round_eq_round)
  have b0: "0 \<le> ?b" using spec_avgBedtime_range [of "map (\<lambda>e. minuteOfDay (bedtime e)) (x # xs)"] by simp
  have w0: "0 \<le> ?w" by (rule spec_avgWake_nonneg)
  have fb: "formatSettingsTime (js_floor (real_of_int ?b / 60)) (js_rem ?b 60) = clock12 ?b"
    using formatSettingsTime_clock12 [OF b0] b0 by (simp add: js_rem_nonneg)
  have fw: "formatSettingsTime (js_floor (real_of_int ?w / 60)) (js_rem ?w 60) = clock12 ?w"
    using formatSettingsTime_clock12 [OF w0] w0 by (simp add: js_rem_nonneg)
  show ?thesis
    unfolding getSleepStats_def Let_def b w d fb fw
    by (simp del: foldl_Cons list.map)
qed


text \<open>
  Claim C10. \<open>getSleepStats\<close> returns \<open>None\<close> exactly for the empty history. For every
  other history it raises no error and returns a record whose six fields are all
  determined: the number of nights; the mean duration rounded to the nearest minute; as
  best (worst) the duration and wake date of the first entry with the longest (shortest)
  duration; the average bedtime and the average wake time, each the specification's
  average printed as a 12-hour clock time.
\<close>

theorem getSleepStats_defined:
  "(getSleepStats sleepData = Inr None \<longleftrightarrow> sleepData = []) \<and>
   (sleepData \<noteq> [] \<longrightarrow>
      (\<exists>st i j.
         getSleepStats sleepData = Inr (Some st) \<and>
         totalNights st = length sleepData \<and>
         average st = round (real_of_int (sum_list (map sleepDuration sleepData))
                              / real (length sleepData)) \<and>
         i < length sleepData \<and>
         best st = \<lparr>duration = sleepDuration (sleepData ! i), date = wakeTime (sleepData ! i)\<rparr> \<and>
         duration (best st) = Max (sleepDuration ` set sleepData) \<and>
         (\<forall>k < i. sleepDuration (sleepData ! k) < sleepDuration (sleepData ! i)) \<and>
         j < length sleepData \<and>
         worst st = \<lparr>duration = sleepDuration (sleepData ! j), date = wakeTime (sleepData ! j)\<rparr> \<and>
         duration (worst st) = Min (sleepDuration ` set sleepData) \<and>
         (\<forall>k < j. sleepDuration (sleepData ! j) < sleepDuration (sleepData ! k)) \<and>
         avgBedtime st = clock12 (spec_avgBedtime (map (\<lambda>e. minuteOfDay (bedtime e)) sleepData)) \<and>
         avgWakeTime st = clock12 (spec_avgWake (map (\<lambda>e. minuteOfDay (wakeTime e)) sleepData))))"
proof (cases sleepData)
  case Nil
  then show ?thesis by (simp add: getSleepStats_def)
next
  case (Cons x xs)
  let ?fmax = "\<lambda>mx e. if sleepDuration e > sleepDuration mx then e else (mx::sleep_entry)"
  let ?fmin = "\<lambda>mn e. if sleepDuration e < sleepDuration mn then e else (mn::sleep_entry)"
  from foldl_pick_max_first [of x xs] obtain i where i: "i < length (x # xs)"
    and bi: "foldl ?fmax x xs = (x # xs) ! i"
    and fi: "\<forall>k < i. sleepDuration ((x # xs) ! k) < sleepDuration ((x # xs) ! i)"
    by blast
  from foldl_pick_min_first [of x xs] obtain j where j: "j < length (x # xs)"
    and bj: "foldl ?fmin x xs = (x # xs) ! j"
    and fj: "\<forall>k < j. sleepDuration ((x # xs) ! j) < sleepDuration ((x # xs) ! k)"
    by blast
  have mx: "sleepDuration ((x # xs) ! i) = Max (sleepDuration ` set (x # xs))"
    using foldl_pick_max [of x xs] bi by simp
  have mn: "sleepDuration ((x # xs) ! j) = Min (sleepDuration ` set (x # xs))"
    using foldl_pick_min [of x xs] bj by simp
  note r = getSleepStats_Cons_record [of x xs, unfolded bi bj]
  obtain st where st: "getSleepStats (x # xs) = Inr (Some st)"
    and tn: "totalNights st = length (x # xs)"
    and av: "average st = round (real_of_int (sum_list (map sleepDuration (x # xs)))
                                  / real (length (x # xs)))"
    and be: "best st = \<lparr>duration = sleepDuration ((x # xs) ! i), date = wakeTime ((x # xs) ! i)\<rparr>"
    and wo: "worst st = \<lparr>duration = sleepDuration ((x # xs) ! j), date = wakeTime ((x # xs) ! j)\<rparr>"
    and ab: "avgBedtime st = clock12 (spec_avgBedtime (map (\<lambda>e. minuteOfDay (bedtime e)) (x # xs)))"
    and aw: "avgWakeTime st = clock12 (spec_avgWake (map (\<lambda>e. minuteOfDay (wakeTime e)) (x # xs)))"
    by (rule that [OF r]) simp_all
  have db: "duration (best st) = Max (sleepDuration ` set (x # xs))"
    using be mx by simp
  have dw: "duration (worst st) = Min (sleepDuration ` set (x # xs))"
    using wo mn by simp
  from st tn av i be db fi j wo dw fj ab aw
  have e: "\<exists>st i j.
         getSleepStats (x # xs) = Inr (Some st) \<and>
         totalNights st = length (x # xs) \<and>
         average st = round (real_of_int (sum_list (map sleepDuration (x # xs)))
                              / real (length (x # xs))) \<and>
         i < length (x # xs) \<and>
         best st = \<lparr>duration = sleepDuration ((x # xs) ! i), date = wakeTime ((x # xs) ! i)\<rparr> \<and>
         duration (best st) = Max (sleepDuration ` set (x # xs)) \<and>
         (\<forall>k < i. sleepDuration ((x # xs) ! k) < sleepDuration ((x # xs) ! i)) \<and>
         j < length (x # xs) \<and>
         worst st = \<lparr>duration = sleepDuration ((x # xs) ! j), date = wakeTime ((x # xs) ! j)\<rparr> \<and>
         duration (worst st) = Min (sleepDuration ` set (x # xs)) \<and>
         (\<forall>k < j. sleepDuration ((x # xs) ! j) < sleepDuration ((x # xs) ! k)) \<and>
         avgBedtime st = clock12 (spec_avgBedtime (map (\<lambda>e. minuteOfDay (bedtime e)) (x # xs))) \<and>
         avgWakeTime st = clock12 (spec_avgWake (map (\<lambda>e. minuteOfDay (wakeTime e)) (x # xs)))"
    by blast
  have a: "getSleepStats (x # xs) = Inr None \<longleftrightarrow> x # xs = []"
    using st by simp
  show ?thesis
    unfolding Cons by (intro conjI impI) (rule a, rule e)
qed


theorem getSleepStats_defined_witness:
  "[night1, night2] \<noteq> [] \<and>
   getSleepStats [night1, night2] =
     Inr (Some \<lparr>average = 435,
                best = \<lparr>duration = 450, date = 111600000\<rparr>,
                worst = \<lparr>duration = 420, date = 198900000\<rparr>,
                totalNights = 2,
                avgBedtime = ''11:53 PM'',
                avgWakeTime = ''7:08 AM''\<rparr>)"
proof -
  let ?xs = "[night1, night2]"
  have ne: "?xs \<noteq> []" by simp
  from getSleepStats_defined [of ?xs] ne
  obtain st i j where st: "getSleepStats ?xs = Inr (Some st)"
    and tn: "totalNights st = length ?xs"
    and av: "average st = round (real_of_int (sum_list (map sleepDuration ?xs)) / real (length ?xs))"
    and i: "i < length ?xs"
    and be: "best st = \<lparr>duration = sleepDuration (?xs ! i), date = wakeTime (?xs ! i)\<rparr>"
    and db: "duration (best st) = Max (sleepDuration ` set ?xs)"
    and j: "j < length ?xs"
    and wo: "worst st = \<lparr>duration = sleepDuration (?xs ! j), date = wakeTime (?xs ! j)\<rparr>"
    and dw: "duration (worst st) = Min (sleepDuration ` set ?xs)"
    and ab: "avgBedtime st = clock12 (spec_avgBedtime (map (\<lambda>e. minuteOfDay (bedtime e)) ?xs))"
    and aw: "avgWakeTime st = clock12 (spec_avgWake (map (\<lambda>e. minuteOfDay (wakeTime e)) ?xs))"
    by blast
  have vb: "clock12 (spec_avgBedtime (map (\<lambda>e. minuteOfDay (bedtime e)) ?xs)) = ''11:53 PM''"
    by code_simp
  have vw: "clock12 (spec_avgWake (map (\<lambda>e. minuteOfDay (wakeTime e)) ?xs)) = ''7:08 AM''"
    by code_simp
  have va: "round (real_of_int (sum_list (map sleepDuration ?xs)) / real (length ?xs)) = 435"
    by code_simp
  from i have "i = 0 \<or> i = 1" by auto
  with be db have i0: "i = 0"
    by (auto simp: night1_def night2_def)
  from j have "j = 0 \<or> j = 1" by auto
  with wo dw have j1: "j = 1"
    by (auto simp: night1_def night2_def)
  have "st = \<lparr>average = 435,
                best = \<lparr>duration = 450, date = 111600000\<rparr>,
                worst = \<lparr>duration = 420, date = 198900000\<rparr>,
                totalNights = 2,
                avgBedtime = ''11:53 PM'',
                avgWakeTime = ''7:08 AM''\<rparr>"
    using tn av [unfolded va] be [unfolded i0] wo [unfolded j1] ab [unfolded vb] aw [unfolded vw]
    by (intro sleep_stats.equality) (simp_all add: night1_def night2_def)
  with st ne show ?thesis by simp
qed

section \<open>Optimal wake time\<close>

lemma nearest5: 
  assumes "0 \<le> m"
  shows "js_round (real_of_int m / 5) * 5 mod 5 = 0 \<and> \<bar>js_round (real_of_int m / 5) * 5 - m\<bar> \<le> 2"
proof -
  have "js_round (real_of_int m / real 5) = (2 * m + int 5) div (2 * int 5)"
    by (rule js_round_div) simp
  then have r: "js_round (real_of_int m / 5) = (2 * m + 5) div 10" by simp
  show ?thesis unfolding r by presburger
qed

lemma spec_wakeMinutes_range: "0 \<le> spec_wakeMinutes xs \<and> spec_wakeMinutes xs < 1440"
  by (simp add: spec_wakeMinutes_def)

lemma optimalWakeMinutes_refines:
  assumes "xs \<noteq> []"
  shows "js_rem (js_round (real_of_int (foldl (\<lambda>sum e. sum + bedtimeMins e) 0 xs) / real (length xs)) + 480) 1440
           = spec_wakeMinutes xs"
proof -
  let ?R = "round (real_of_int (sum_list (map bedtimeMins xs)) / real (length xs))"
  have eq: "map ((\<lambda>m. if m < 720 then m + 1440 else m) \<circ> (\<lambda>e. minuteOfDay (bedtime e))) xs
              = map bedtimeMins xs"
    by (simp add: bedtimeMins_eq Let_def)
  have "0 \<le> sum_list (map bedtimeMins xs)"
    by (rule sum_list_nonneg_int) (rule bedtimeMins_nonneg)
  then have "0 \<le> ?R" by (rule round_mean_nonneg)
  then have "js_rem (?R + 480) 1440 = (?R + 480) mod 1440"
    by (simp add: js_rem_nonneg)
  also have "\<dots> = (?R mod 1440 + 480) mod 1440"
    by (simp add: mod_add_left_eq)
  finally show ?thesis
    unfolding spec_wakeMinutes_def spec_avgBedtime_def
    by (simp add: foldl_add_map js_round_eq_round eq)
qed

lemma getOptimalWakeTime_recent:
  assumes "length recent = 7"
  shows "\<exists>w. getOptimalWakeTime (older @ recent) = Some w \<and>
           optimalHour w = spec_wakeMinutes recent div 60 \<and>
           optimalMinute w mod 5 = 0 \<and>
           \<bar>optimalMinute w - spec_wakeMinutes recent mod 60\<bar> \<le> 2"
proof -
  let ?t = "spec_wakeMinutes recent"
  from assms have ne: "recent \<noteq> []" by auto
  have t: "js_rem (js_round (real_of_int (foldl (\<lambda>sum e. sum + bedtimeMins e) 0 recent) / real (length recent)) + 480) 1440 = ?t"
    using ne by (rule optimalWakeMinutes_refines)
  have m: "js_rem ?t 60 = ?t mod 60"
    using spec_wakeMinutes_range [of recent] by (simp add: js_rem_nonneg)
  have n5: "js_round (real_of_int (?t mod 60) / 5) * 5 mod 5 = 0 \<and>
            \<bar>js_round (real_of_int (?t mod 60) / 5) * 5 - ?t mod 60\<bar> \<le> 2"
    by (rule nearest5) simp
  have d: "drop (length (older @ recent) - 7) (older @ recent) = recent"
    using assms by simp
  have "getOptimalWakeTime (older @ recent) =
          Some \<lparr>optimalHour = ?t div 60,
                optimalMinute = js_round (real_of_int (?t mod 60) / 5) * 5,
                avgSleep = js_round (real_of_int (foldl (\<lambda>sum e. sum + sleepDuration e) 0 recent) / real (length recent))\<rparr>"
    unfolding getOptimalWakeTime_def Let_def d
    using assms t m by simp
  with n5 show ?thesis by simp
qed

text \<open>
  With fewer than seven entries \<open>getOptimalWakeTime\<close> returns \<open>None\<close>. With seven or more
  it looks at the last seven only: whatever the older entries are, the hour is that of
  the specification's wake time (eight hours after the average bedtime of those seven,
  modulo 1440) and the minute is the multiple of five nearest to that wake time's minute.
\<close>

lemma getOptimalWakeTime_spec:
  "(length sleepData < 7 \<longrightarrow> getOptimalWakeTime sleepData = None) \<and>
   (length recent = 7 \<longrightarrow>
      (\<exists>w. getOptimalWakeTime (older @ recent) = Some w \<and>
           optimalHour w = spec_wakeMinutes recent div 60 \<and>
           optimalMinute w mod 5 = 0 \<and>
           \<bar>optimalMinute w - spec_wakeMinutes recent mod 60\<bar> \<le> 2))"
  using getOptimalWakeTime_recent [of recent older]
  by (simp add: getOptimalWakeTime_def)

lemma getOptimalWakeTime_spec_example:
  "length (take 6 weekNights) < 7 \<and> getOptimalWakeTime (take 6 weekNights) = None \<and>
   length weekNights = 7 \<and>
   (\<exists>w. getOptimalWakeTime ([night2] @ weekNights) = Some w \<and>
        optimalHour w = 7 \<and> optimalMinute w mod 5 = 0 \<and> \<bar>optimalMinute w - 49\<bar> \<le> 2)"
proof -
  have s: "spec_wakeMinutes weekNights = 469" by code_simp
  have l: "length weekNights = 7" "length (take 6 weekNights) < 7"
    by (simp_all add: weekNights_def)
  show ?thesis
    using getOptimalWakeTime_spec [of "take 6 weekNights" weekNights "[night2]"] l s
    by simp
qed

text \<open>
  Claim C7. The claim says that the suggestion is a clock time, the wake time with its
  minute rounded to the nearest five. The code rounds the minute on its own, without a
  carry into the hour: after seven nights with bedtime 22:58 the wake time is 06:58, and
  the suggestion is hour 6 and minute 60, which the insight screen prints as \<open>6:60 AM\<close>.
\<close>

theorem optimal_wake_minute_not_carried:
  "length lateNights = 7 \<and>
   spec_wakeMinutes lateNights = 6 * 60 + 58 \<and>
   getOptimalWakeTime lateNights = Some \<lparr>optimalHour = 6, optimalMinute = 60, avgSleep = 482\<rparr> \<and>
   formatAlarmTime 6 60 = ''6:60 AM''"
  by code_simp

section \<open>Math mission: the generated problem\<close>

lemma randomInt_range:
  assumes "0 \<le> r" "r < 1" "0 < n"
  shows "0 \<le> randomInt r n \<and> randomInt r n \<le> int n - 1"
proof -
  have "0 \<le> r * real n" using assms by simp
  then have lo: "0 \<le> \<lfloor>r * real n\<rfloor>" by simp
  have hi: "\<lfloor>r * real n\<rfloor> \<le> int n - 1"
  proof -
    have "r * real n < real n" using assms by simp
    then have "\<lfloor>r * real n\<rfloor> < int n" by (simp add: floor_less_iff)
    then show ?thesis by simp
  qed
  from lo hi show ?thesis by (simp add: randomInt_def js_floor_def)
qed

lemma randomInt3_cases:
  assumes "0 \<le> r" "r < 1"
  shows "(randomInt r 3 = 0) = (r < 1 / 3)"
    and "(randomInt r 3 = 1) = (1 / 3 \<le> r \<and> r < 2 / 3)"
    and "(randomInt r 3 = 2) = (2 / 3 \<le> r)"
  using assms unfolding randomInt_def js_floor_def
  by (auto simp: floor_eq_iff)

lemma operation_cases:
  assumes "0 \<le> r" "r < 1"
  shows "nth_opt operations (randomInt r (length operations)) =
           Some (if r < 1 / 3 then ''+'' else if r < 2 / 3 then ''-'' else ''*'')"
proof -
  have len: "length operations = 3" by (simp add: operations_def)
  from randomInt_range [OF assms, of 3]
  consider "randomInt r 3 = 0" | "randomInt r 3 = 1" | "randomInt r 3 = 2"
    by (auto simp: le_less)
  then show ?thesis
    unfolding len
  proof cases
    case 1
    with randomInt3_cases(1) [OF assms] show "nth_opt operations (randomInt r 3) =
           Some (if r < 1 / 3 then ''+'' else if r < 2 / 3 then ''-'' else ''*'')"
      by (simp add: nth_opt_def operations_def)
  next
    case 2
    with randomInt3_cases(2) [OF assms] show "nth_opt operations (randomInt r 3) =
           Some (if r < 1 / 3 then ''+'' else if r < 2 / 3 then ''-'' else ''*'')"
      by (simp add: nth_opt_def operations_def)
  next
    case 3
    with randomInt3_cases(3) [OF assms] show "nth_opt operations (randomInt r 3) =
           Some (if r < 1 / 3 then ''+'' else if r < 2 / 3 then ''-'' else ''*'')"
      by (simp add: nth_opt_def operations_def)
  qed
qed

text \<open>
  Claim C5, amended. With \<^verbatim>\<open>Math.random()\<close> in \<open>[0, 1)\<close>, the problem reads \<open>a op b\<close> where
  the operator is \<open>+\<close>, \<open>-\<close> or \<open>*\<close>, each chosen on one third of the generator's range. For
  a subtraction the minuend is in \<open>[30, 79]\<close> and the subtrahend in \<open>[1, 30]\<close>, so the answer
  \<open>a - b\<close> is never negative; for a multiplication both operands are in \<open>[2, 13]\<close>.
\<close>

theorem generateMathProblem_ranges:
  assumes "0 \<le> rng n" "rng n < 1"
    and "0 \<le> rng (n + 1)" "rng (n + 1) < 1"
    and "0 \<le> rng (n + 2)" "rng (n + 2) < 1"
  shows "\<exists>op a b.
           question (fst (generateMathProblem rng n)) = show_int a @ '' '' @ op @ '' '' @ show_int b \<and>
           op = (if rng n < 1 / 3 then ''+'' else if rng n < 2 / 3 then ''-'' else ''*'') \<and>
           (op = ''-'' \<longrightarrow> 30 \<le> a \<and> a \<le> 79 \<and> 1 \<le> b \<and> b \<le> 30 \<and>
              answer (fst (generateMathProblem rng n)) = a - b \<and>
              0 \<le> answer (fst (generateMathProblem rng n))) \<and>
           (op = ''*'' \<longrightarrow> 2 \<le> a \<and> a \<le> 13 \<and> 2 \<le> b \<and> b \<le> 13 \<and>
              answer (fst (generateMathProblem rng n)) = a * b)"
proof -
  note op = operation_cases [OF assms(1,2)]
  note a50 = randomInt_range [OF assms(3,4), of 50, simplified]
  note b50 = randomInt_range [OF assms(5,6), of 50, simplified]
  note a12 = randomInt_range [OF assms(3,4), of 12, simplified]
  note b12 = randomInt_range [OF assms(5,6), of 12, simplified]
  note b30 = randomInt_range [OF assms(5,6), of 30, simplified]
  consider (plus) "rng n < 1 / 3" | (minus) "\<not> rng n < 1 / 3" "rng n < 2 / 3"
    | (times) "\<not> rng n < 1 / 3" "\<not> rng n < 2 / 3"
    by blast
  then show ?thesis
  proof cases
    case plus
    show ?thesis
      apply (rule exI [of _ "''+''"])
      apply (rule exI [of _ "randomInt (rng (n + 1)) 50 + 10"])
      apply (rule exI [of _ "randomInt (rng (n + 2)) 50 + 10"])
      using plus op by (simp add: generateMathProblem_def Let_def)
  next
    case minus
    show ?thesis
      apply (rule exI [of _ "''-''"])
      apply (rule exI [of _ "randomInt (rng (n + 1)) 50 + 30"])
      apply (rule exI [of _ "randomInt (rng (n + 2)) 30 + 1"])
      using minus op a50 b30 by (simp add: generateMathProblem_def Let_def)
  next
    case times
    show ?thesis
      apply (rule exI [of _ "''*''"])
      apply (rule exI [of _ "randomInt (rng (n + 1)) 12 + 2"])
      apply (rule exI [of _ "randomInt (rng (n + 2)) 12 + 2"])
      using times op a12 b12 by (simp add: generateMathProblem_def Let_def)
  qed
qed

theorem generateMathProblem_ranges_witness:
  "(0 \<le> rng_high 0 \<and> rng_high 0 < 1 \<and> 0 \<le> rng_high (0 + 1) \<and> rng_high (0 + 1) < 1 \<and>
    0 \<le> rng_high (0 + 2) \<and> rng_high (0 + 2) < 1) \<and>
   (\<exists>a b. question (fst (generateMathProblem rng_high 0)) = show_int a @ '' - '' @ show_int b \<and>
          30 \<le> a \<and> a \<le> 79 \<and> 1 \<le> b \<and> b \<le> 30 \<and>
          answer (fst (generateMathProblem rng_high 0)) = a - b \<and>
          0 \<le> answer (fst (generateMathProblem rng_high 0)))"
proof -
  have h: "0 \<le> rng_high 0" "rng_high 0 < 1" "0 \<le> rng_high (0 + 1)" "rng_high (0 + 1) < 1"
    "0 \<le> rng_high (0 + 2)" "rng_high (0 + 2) < 1"
    by (simp_all add: rng_high_def)
  have op: "(if rng_high 0 < 1 / 3 then ''+'' else if rng_high 0 < 2 / 3 then ''-'' else ''*'') = ''-''"
    by (simp add: rng_high_def)
  from generateMathProblem_ranges [OF h] op h show ?thesis
    by auto
qed

text \<open>
  The claim as written bounds the minuend by 59; a draw of 0.99 gives the minuend 79.
\<close>

theorem generateMathProblem_minuend_counterexample:
  "generateMathProblem rng_high 0 = (\<lparr>question = ''79 - 30'', answer = 49\<rparr>, 3)"
  by code_simp

section \<open>Countdown to the next alarm: the week scan\<close>

text \<open>
  The scan of a repeating alarm returns the first offset in \<open>0..6\<close> whose weekday is set and
  whose instant is after \<open>now\<close>, and leaves \<open>minDiff\<close> as it was when there is none.
\<close>

lemma scanWeek_first:
  assumes "j < 7"
    and "days_at (days al) ((getDay now + j) mod 7)"
    and "setHours (addDays now (int j)) (hour al) (minute al) > now"
    and "\<forall>k. i \<le> k \<and> k < j \<longrightarrow>
           \<not> (days_at (days al) ((getDay now + k) mod 7) \<and>
              setHours (addDays now (int k)) (hour al) (minute al) > now)"
    and "i \<le> j"
  shows "scanWeek now al i Infinity = Num (setHours (addDays now (int j)) (hour al) (minute al) - now)"
  using assms(4,5)
proof (induction "j - i" arbitrary: i)
  case 0
  then have "i = j" by simp
  with assms(1-3) show ?case
    by (subst scanWeek.simps) (simp add: Let_def getTime_def lessThanNum_def)
next
  case (Suc n)
  then have lt: "i < j" by simp
  with Suc.prems(1) have no: "\<not> (days_at (days al) ((getDay now + i) mod 7) \<and>
              setHours (addDays now (int i)) (hour al) (minute al) > now)"
    by simp
  have ih: "scanWeek now al (i + 1) Infinity
              = Num (setHours (addDays now (int j)) (hour al) (minute al) - now)"
  proof (rule Suc.hyps(1))
    show "n = j - (i + 1)" using Suc.hyps(2) by simp
    show "\<forall>k. i + 1 \<le> k \<and> k < j \<longrightarrow>
           \<not> (days_at (days al) ((getDay now + k) mod 7) \<and>
              setHours (addDays now (int k)) (hour al) (minute al) > now)"
      using Suc.prems(1) by simp
    show "i + 1 \<le> j" using lt by simp
  qed
  from lt assms(1) have i7: "i < 7" by simp
  show ?case
    using no i7 ih
    by (subst scanWeek.simps) (auto simp: Let_def getTime_def)
qed

lemma scanWeek_none:
  assumes "\<forall>k. i \<le> k \<and> k < 7 \<longrightarrow>
           \<not> (days_at (days al) ((getDay now + k) mod 7) \<and>
              setHours (addDays now (int k)) (hour al) (minute al) > now)"
  shows "scanWeek now al i minDiff = minDiff"
  using assms
proof (induction "7 - i" arbitrary: i)
  case 0
  then show ?case by (subst scanWeek.simps) simp
next
  case (Suc n)
  then have i7: "i < 7" by simp
  with Suc.prems have no: "\<not> (days_at (days al) ((getDay now + i) mod 7) \<and>
              setHours (addDays now (int i)) (hour al) (minute al) > now)"
    by simp
  have ih: "scanWeek now al (i + 1) minDiff = minDiff"
  proof (rule Suc.hyps(1))
    show "n = 7 - (i + 1)" using Suc.hyps(2) by simp
    show "\<forall>k. i + 1 \<le> k \<and> k < 7 \<longrightarrow>
           \<not> (days_at (days al) ((getDay now + k) mod 7) \<and>
              setHours (addDays now (int k)) (hour al) (minute al) > now)"
      using Suc.prems by simp
  qed
  show ?case
    using no i7 ih
    by (subst scanWeek.simps) (auto simp: Let_def getTime_def)
qed


lemma getDay_less_7: "getDay now < 7"
  by (simp add: getDay_def)

lemma countdown_none_when_only_today_passed:
  assumes "enabled al" and "list_ex (\<lambda>d. d) (days al)"
    and "\<forall>k < 7. days_at (days al) k \<longrightarrow> k = getDay now"
    and "setHours now (hour al) (minute al) \<le> now"
  shows "getNextAlarmCountdown [al] now = None"
proof -
  have "\<forall>k. 0 \<le> k \<and> k < 7 \<longrightarrow>
           \<not> (days_at (days al) ((getDay now + k) mod 7) \<and>
              setHours (addDays now (int k)) (hour al) (minute al) > now)"
  proof (intro allI impI)
    fix k :: nat
    assume k: "0 \<le> k \<and> k < 7"
    show "\<not> (days_at (days al) ((getDay now + k) mod 7) \<and>
              setHours (addDays now (int k)) (hour al) (minute al) > now)"
    proof
      assume a: "days_at (days al) ((getDay now + k) mod 7) \<and>
              setHours (addDays now (int k)) (hour al) (minute al) > now"
      have "(getDay now + k) mod 7 < 7" by simp
      with a assms(3) have "(getDay now + k) mod 7 = getDay now" by blast
      with k getDay_less_7 [of now] have "k = 0" by presburger
      with a assms(4) show False by (simp add: addDays_def)
    qed
  qed
  then have "scanWeek now al 0 Infinity = Infinity" by (rule scanWeek_none)
  with assms(1,2) show ?thesis
    by (simp add: getNextAlarmCountdown_def)
qed


lemma js_floor_div60000: "js_floor (real_of_int a / 60000) = a div 60000"
  using js_floor_div [of a 60000] by simp

lemma countdown_first_offset:
  assumes "enabled al" and "list_ex (\<lambda>d. d) (days al)"
    and "j < 7"
    and "days_at (days al) ((getDay now + j) mod 7)"
    and "setHours (addDays now (int j)) (hour al) (minute al) > now"
    and "\<forall>k. 0 \<le> k \<and> k < j \<longrightarrow>
           \<not> (days_at (days al) ((getDay now + k) mod 7) \<and>
              setHours (addDays now (int k)) (hour al) (minute al) > now)"
  shows "getNextAlarmCountdown [al] now =
           Some \<lparr>hours = (setHours (addDays now (int j)) (hour al) (minute al) - now) div 60000 div 60,
                 minutes = (setHours (addDays now (int j)) (hour al) (minute al) - now) div 60000 mod 60\<rparr>"
proof -
  let ?d = "setHours (addDays now (int j)) (hour al) (minute al) - now"
  have s: "scanWeek now al 0 Infinity = Num ?d"
    by (rule scanWeek_first [OF assms(3-6)]) simp
  have "0 \<le> ?d div 60000" using assms(5) by simp
  then have r: "js_rem (?d div 60000) 60 = ?d div 60000 mod 60"
    by (simp add: js_rem_nonneg)
  show ?thesis
    using assms(1,2) s r
    by (simp add: getNextAlarmCountdown_def Let_def js_floor_div60000)
qed

text \<open>
  Claim C1. The claim says that a repeating alarm whose only weekday is today and whose
  time has passed is due one week later. The loop stops at offset 6, so the code finds
  no occurrence (\<open>countdown_none_when_only_today_passed\<close>): on Monday 08:00 the
  countdown of an alarm repeating on Mondays at 07:00 is \<open>None\<close>, although one hour
  earlier it was one hour, and although an alarm without weekdays at the same time is
  moved to the next day.
\<close>

theorem countdown_misses_next_week:
  "enabled mondayAlarm \<and> getDay (monday 8 0 0) = 1 \<and> days_at (days mondayAlarm) 1 \<and>
   getNextAlarmCountdown [mondayAlarm] (monday 8 0 0) = None \<and>
   getNextAlarmCountdown [mondayAlarm] (monday 6 0 0) = Some \<lparr>hours = 1, minutes = 0\<rparr> \<and>
   getNextAlarmCountdown [oneShotAlarm ''2'' 7 0 Simple] (monday 8 0 0)
     = Some \<lparr>hours = 23, minutes = 0\<rparr>"
  by code_simp

section \<open>Trigger loop: the dedup key\<close>

text \<open>
  Checking the same alarm again within the same minute changes nothing: after a trigger
  the recorded key is the alarm's own.
\<close>

lemma playAlarmSound_lastTriggered [simp]:
  "lastTriggeredRef (playAlarmSound i t s) = lastTriggeredRef s"
  by (simp add: playAlarmSound_def Let_def setTimeout_def split: option.splits prod.splits)

lemma startBreathingExercise_lastTriggered [simp]:
  "lastTriggeredRef (startBreathingExercise s) = lastTriggeredRef s"
  by (simp add: startBreathingExercise_def Let_def setTimeout_def)

lemma triggerAlarm_lastTriggered [simp]:
  "lastTriggeredRef (triggerAlarm rng al s) = lastTriggeredRef s"
  by (simp add: triggerAlarm_def Let_def split_beta)

lemma checkAlarm_same_minute:
  assumes "getHours now' = getHours now" "getMinutes now' = getMinutes now"
    and "getDay now' = getDay now"
  shows "checkAlarm rng now' al (checkAlarm rng now al s) = checkAlarm rng now al s"
  using assms by (simp add: checkAlarm_def Let_def)

text \<open>
  Claim C3. The claim says that no alarm fires twice in one calendar minute, also when
  several alarms are due together. The loop remembers one key only, that of the last
  trigger: with two alarms due at 07:00, the ticks of 07:00:00 and 07:00:01 call
  \<open>triggerAlarm\<close> four times, twice for each alarm. A single alarm is triggered once.
\<close>

theorem two_due_alarms_refire:
  "triggerLog (checkAlarmTriggers rng_low (monday 7 0 1)
       (checkAlarmTriggers rng_low (monday 7 0 0) (initialState rng_low twoDue)))
     = [''1'', ''2'', ''1'', ''2''] \<and>
   triggerLog (checkAlarmTriggers rng_low (monday 7 0 1)
       (checkAlarmTriggers rng_low (monday 7 0 0) (initialState rng_low [oneShotAlarm ''1'' 7 0 Simple])))
     = [''1'']"
  by code_simp

section \<open>Math mission: the answer check\<close>

text \<open>
  The right answer ends the mission; any other input raises the wrong-flag and leaves the
  problem, the screen and the alarms as they are. Digits followed by anything that is not
  a digit are read as the number the digits spell.
\<close>

lemma math_right_answer_resolves:
  assumes "parseInt (userAnswer s) = Some (answer (mathProblem s))"
  shows "\<not> alarmScreenVisible (handleDismissAlarm now s) \<and>
         activeAlarm (handleDismissAlarm now s) = None"
  using assms
  by (simp add: handleDismissAlarm_def Let_def disableOneTimeAlarm_def setAlarms_def
        promptBedtime_def split: option.splits)

lemma math_wrong_answer_keeps_problem:
  assumes "parseInt (userAnswer s) \<noteq> Some (answer (mathProblem s))"
  shows "mathProblem (handleDismissAlarm now s) = mathProblem s \<and>
         wrongAnswer (handleDismissAlarm now s) \<and>
         alarmScreenVisible (handleDismissAlarm now s) = alarmScreenVisible s \<and>
         activeAlarm (handleDismissAlarm now s) = activeAlarm s \<and>
         alarms (handleDismissAlarm now s) = alarms s"
  using assms by (simp add: handleDismissAlarm_def Let_def setTimeout_def)

lemma takeWhile_digits_tail:
  assumes "list_all isDigit ds" "\<not> isDigit c"
  shows "takeWhile isDigit (ds @ c # rest) = ds"
  using assms by (induction ds) auto

lemma parseInt_ignores_tail:
  assumes "ds \<noteq> []" "list_all isDigit ds" "\<not> isDigit c"
  shows "parseInt (ds @ c # rest) = Some (digitsValue ds)"
proof -
  from assms(1) obtain d ds' where ds: "ds = d # ds'" by (cases ds) auto
  with assms(2) have d: "isDigit d" by simp
  then have nw: "\<not> isWhiteSpace d" and ns: "d \<noteq> CHR ''-''" "d \<noteq> CHR ''+''"
    by (auto simp: isDigit_def digitVal_def isWhiteSpace_def split: if_splits)
  have t: "takeWhile isDigit (ds @ c # rest) = ds"
    by (rule takeWhile_digits_tail [OF assms(2,3)])
  have dw: "dropWhile isWhiteSpace (ds @ c # rest) = ds @ c # rest"
    using nw ds by simp
  show ?thesis
    unfolding parseInt_def dw Let_def
    using ns t assms(1) ds by simp
qed

lemma math_mission_examples:
  "\<not> alarmScreenVisible (handleDismissAlarm (monday 7 0 30) (mathSession\<lparr>userAnswer := ''25''\<rparr>)) \<and>
   alarmScreenVisible (handleDismissAlarm (monday 7 0 30) (mathSession\<lparr>userAnswer := ''abc''\<rparr>)) \<and>
   wrongAnswer (handleDismissAlarm (monday 7 0 30) (mathSession\<lparr>userAnswer := ''abc''\<rparr>)) \<and>
   mathProblem (handleDismissAlarm (monday 7 0 30) (mathSession\<lparr>userAnswer := ''abc''\<rparr>))
     = mathProblem mathSession \<and>
   alarmScreenVisible (handleDismissAlarm (monday 7 0 30) (mathSession\<lparr>userAnswer := ''26''\<rparr>)) \<and>
   wrongAnswer (handleDismissAlarm (monday 7 0 30) (mathSession\<lparr>userAnswer := ''26''\<rparr>)) \<and>
   mathProblem (handleDismissAlarm (monday 7 0 30) (mathSession\<lparr>userAnswer := ''26''\<rparr>))
     = mathProblem mathSession"
  by code_simp

text \<open>
  Claim C6. The claim says that an input that is not an integer is rejected. The answer
  is read with \<^verbatim>\<open>parseInt\<close>, which stops at the first character that is not a digit: with
  the problem \<open>42 - 17\<close> on screen, the input \<open>25.5\<close> is read as 25 and ends the mission.
\<close>

theorem math_mission_accepts_non_integer:
  "alarmScreenVisible mathSession \<and>
   activeAlarm mathSession = Some (oneShotAlarm ''1'' 7 0 Math) \<and>
   mathProblem mathSession = \<lparr>question = ''42 - 17'', answer = 25\<rparr> \<and>
   parseInt ''25.5'' = Some 25 \<and>
   \<not> alarmScreenVisible (handleDismissAlarm (monday 7 0 30) (mathSession\<lparr>userAnswer := ''25.5''\<rparr>)) \<and>
   activeAlarm (handleDismissAlarm (monday 7 0 30) (mathSession\<lparr>userAnswer := ''25.5''\<rparr>)) = None"
  by code_simp

section \<open>Dismissal and the one-shot rule\<close>

lemma clearTimeout_frame [simp]:
  "alarms (clearTimeout t s) = alarms s"
  "alarmsUpdates (clearTimeout t s) = alarmsUpdates s"
  "activeAlarm (clearTimeout t s) = activeAlarm s"
  by (simp_all add: clearTimeout_def)

lemma stopAlarmSound_frame [simp]:
  "alarms (stopAlarmSound s) = alarms s"
  "alarmsUpdates (stopAlarmSound s) = alarmsUpdates s"
  "activeAlarm (stopAlarmSound s) = activeAlarm s"
  by (simp_all add: stopAlarmSound_def Let_def split: option.splits)

lemma promptBedtime_frame [simp]:
  "alarms (promptBedtime now s) = alarms s"
  "alarmsUpdates (promptBedtime now s) = alarmsUpdates s"
  "activeAlarm (promptBedtime now s) = activeAlarm s"
  by (simp_all add: promptBedtime_def)

lemma setTimeout_frame [simp]:
  "alarms (snd (setTimeout cb d s)) = alarms s"
  "alarmsUpdates (snd (setTimeout cb d s)) = alarmsUpdates s"
  "activeAlarm (snd (setTimeout cb d s)) = activeAlarm s"
  "alarmScreenVisible (snd (setTimeout cb d s)) = alarmScreenVisible s"
  "userAnswer (snd (setTimeout cb d s)) = userAnswer s"
  "wrongAnswer (snd (setTimeout cb d s)) = wrongAnswer s"
  "shakeCount (snd (setTimeout cb d s)) = shakeCount s"
  "triggerLog (snd (setTimeout cb d s)) = triggerLog s"
  by (simp_all add: setTimeout_def)

lemma disableOneTimeAlarm_oneShot:
  assumes "activeAlarm s = Some act" "list_all (\<lambda>d. \<not> d) (days act)"
  shows "alarms (disableOneTimeAlarm s) =
           map (\<lambda>a. if alarm_id a = alarm_id act then a\<lparr>enabled := False\<rparr> else a) (alarms s)"
    and "alarmsUpdates (disableOneTimeAlarm s) = alarmsUpdates s + 1"
  using assms by (simp_all add: disableOneTimeAlarm_def setAlarms_def)

lemma oneShotDisabledI:
  assumes "alarms s' = map (\<lambda>a. if alarm_id a = alarm_id act then a\<lparr>enabled := False\<rparr> else a) (alarms s)"
    and "alarmsUpdates s' = alarmsUpdates s + 1"
  shows "oneShotDisabled act s s'"
  using assms by (simp add: oneShotDisabled_def)

lemma finish_oneShot:
  assumes "activeAlarm s2 = Some act" "list_all (\<lambda>d. \<not> d) (days act)"
    and "alarms s2 = alarms s" "alarmsUpdates s2 = alarmsUpdates s"
  shows "oneShotDisabled act s ((disableOneTimeAlarm (promptBedtime now s2))\<lparr>activeAlarm := None\<rparr>)"
proof (rule oneShotDisabledI)
  have a: "activeAlarm (promptBedtime now s2) = Some act" using assms(1) by simp
  show "alarms ((disableOneTimeAlarm (promptBedtime now s2))\<lparr>activeAlarm := None\<rparr>) =
          map (\<lambda>a. if alarm_id a = alarm_id act then a\<lparr>enabled := False\<rparr> else a) (alarms s)"
    using disableOneTimeAlarm_oneShot(1) [OF a assms(2)] assms(3) by simp
  show "alarmsUpdates ((disableOneTimeAlarm (promptBedtime now s2))\<lparr>activeAlarm := None\<rparr>) =
          alarmsUpdates s + 1"
    using disableOneTimeAlarm_oneShot(2) [OF a assms(2)] assms(4) by simp
qed

lemma handleSimpleDismiss_oneShot:
  assumes "activeAlarm s = Some act" "list_all (\<lambda>d. \<not> d) (days act)"
  shows "oneShotDisabled act s (handleSimpleDismiss now s)"
  unfolding handleSimpleDismiss_def Let_def
  by (rule finish_oneShot) (simp_all add: assms)

lemma handleShakeDismiss_oneShot:
  assumes "activeAlarm s = Some act" "list_all (\<lambda>d. \<not> d) (days act)"
  shows "oneShotDisabled act s (handleShakeDismiss now s)"
  unfolding handleShakeDismiss_def Let_def
  by (rule finish_oneShot) (simp_all add: assms)

lemma handleBreathingDismiss_oneShot:
  assumes "activeAlarm s = Some act" "list_all (\<lambda>d. \<not> d) (days act)"
  shows "oneShotDisabled act s (handleBreathingDismiss now s)"
  unfolding handleBreathingDismiss_def Let_def
  by (rule finish_oneShot) (simp_all add: assms split: option.splits)

lemma handleAffirmationDismiss_oneShot:
  assumes "activeAlarm s = Some act" "list_all (\<lambda>d. \<not> d) (days act)"
    and "targetAffirmation s = Some target"
    and "trim (toLowerCase (affirmationText s)) = toLowerCase target"
  shows "oneShotDisabled act s (handleAffirmationDismiss now s)"
proof -
  have "handleAffirmationDismiss now s =
          (disableOneTimeAlarm (promptBedtime now
             ((stopAlarmSound s)\<lparr>alarmScreenVisible := False, affirmationText := []\<rparr>)))
            \<lparr>activeAlarm := None\<rparr>"
    using assms(3,4) by (simp add: handleAffirmationDismiss_def Let_def)
  then show ?thesis
    by (simp only:) (rule finish_oneShot, simp_all add: assms)
qed

lemma handleDismissAlarm_oneShot:
  assumes "activeAlarm s = Some act" "list_all (\<lambda>d. \<not> d) (days act)"
    and "parseInt (userAnswer s) = Some (answer (mathProblem s))"
  shows "oneShotDisabled act s (handleDismissAlarm now s)"
proof -
  have "handleDismissAlarm now s =
          (disableOneTimeAlarm (promptBedtime now
             ((stopAlarmSound s)\<lparr>alarmScreenVisible := False, userAnswer := []\<rparr>)))
            \<lparr>activeAlarm := None\<rparr>"
    using assms(3) by (simp add: handleDismissAlarm_def Let_def)
  then show ?thesis
    by (simp only:) (rule finish_oneShot, simp_all add: assms)
qed

lemma onAccelerometer_oneShot:
  assumes "activeAlarm s = Some act" "list_all (\<lambda>d. \<not> d) (days act)"
    and "alarmScreenVisible s" "dismissType act = Shake"
    and "sqrt (x * x + y * y + z * z) > SHAKE_THRESHOLD" "now - lastShakeTime s > 300"
    and "shakeCount s + 1 \<ge> REQUIRED_SHAKES"
  shows "oneShotDisabled act s (onAccelerometer x y z now s)"
proof -
  let ?s2 = "s\<lparr>lastShakeTime := now, shakeCount := shakeCount s + 1\<rparr>"
  have "onAccelerometer x y z now s = handleShakeDismiss now ?s2"
    using assms by (simp add: onAccelerometer_def Let_def)
  moreover have "oneShotDisabled act ?s2 (handleShakeDismiss now ?s2)"
    by (rule handleShakeDismiss_oneShot) (simp_all add: assms)
  ultimately show ?thesis by (simp add: oneShotDisabled_def)
qed

lemma handleSnoozeAlarm_alarms:
  "alarms (handleSnoozeAlarm s) = alarms s \<and> alarmsUpdates (handleSnoozeAlarm s) = alarmsUpdates s"
  by (simp add: handleSnoozeAlarm_def Let_def split_beta split: option.splits)

text \<open>
  Claim C4. While a one-shot alarm (no weekday set) is the active alarm, each way of
  completing the dismissal (the stop button, the breathing confirmation, the matching
  affirmation, the right math answer, the shake handler and the fifth qualifying shake)
  writes the alarm list exactly once, and the write turns off the alarms with the active
  alarm's id and changes nothing else. A snooze never writes the alarm list.
\<close>

theorem one_shot_disabled_on_dismissal:
  assumes "activeAlarm s = Some act" and "list_all (\<lambda>d. \<not> d) (days act)"
  shows "oneShotDisabled act s (handleSimpleDismiss now s) \<and>
         oneShotDisabled act s (handleBreathingDismiss now s) \<and>
         (targetAffirmation s = Some target \<and>
          trim (toLowerCase (affirmationText s)) = toLowerCase target \<longrightarrow>
            oneShotDisabled act s (handleAffirmationDismiss now s)) \<and>
         (parseInt (userAnswer s) = Some (answer (mathProblem s)) \<longrightarrow>
            oneShotDisabled act s (handleDismissAlarm now s)) \<and>
         oneShotDisabled act s (handleShakeDismiss now s) \<and>
         (alarmScreenVisible s \<and> dismissType act = Shake \<and>
          sqrt (x * x + y * y + z * z) > SHAKE_THRESHOLD \<and> now - lastShakeTime s > 300 \<and>
          shakeCount s + 1 \<ge> REQUIRED_SHAKES \<longrightarrow>
            oneShotDisabled act s (onAccelerometer x y z now s)) \<and>
         alarms (handleSnoozeAlarm s) = alarms s \<and>
         alarmsUpdates (handleSnoozeAlarm s) = alarmsUpdates s"
  using handleSimpleDismiss_oneShot [OF assms] handleBreathingDismiss_oneShot [OF assms]
    handleAffirmationDismiss_oneShot [OF assms] handleDismissAlarm_oneShot [OF assms]
    handleShakeDismiss_oneShot [OF assms] onAccelerometer_oneShot [OF assms]
    handleSnoozeAlarm_alarms [of s]
  by blast

theorem one_shot_disabled_on_dismissal_witness:
  "(activeAlarm shakeReady = Some (oneShotAlarm ''1'' 7 0 Shake) \<and>
    list_all (\<lambda>d. \<not> d) (days (oneShotAlarm ''1'' 7 0 Shake)) \<and>
    targetAffirmation shakeReady = Some ''I am grateful and energized'' \<and>
    trim (toLowerCase (affirmationText shakeReady)) = toLowerCase ''I am grateful and energized'' \<and>
    parseInt (userAnswer shakeReady) = Some (answer (mathProblem shakeReady)) \<and>
    alarmScreenVisible shakeReady \<and> dismissType (oneShotAlarm ''1'' 7 0 Shake) = Shake \<and>
    sqrt (2 * 2 + 0 * 0 + 0 * 0) > SHAKE_THRESHOLD \<and>
    monday 7 0 30 - lastShakeTime shakeReady > 300 \<and>
    shakeCount shakeReady + 1 \<ge> REQUIRED_SHAKES) \<and>
   oneShotDisabled (oneShotAlarm ''1'' 7 0 Shake) shakeReady
     (handleSimpleDismiss (monday 7 0 30) shakeReady) \<and>
   oneShotDisabled (oneShotAlarm ''1'' 7 0 Shake) shakeReady
     (handleBreathingDismiss (monday 7 0 30) shakeReady) \<and>
   oneShotDisabled (oneShotAlarm ''1'' 7 0 Shake) shakeReady
     (handleAffirmationDismiss (monday 7 0 30) shakeReady) \<and>
   oneShotDisabled (oneShotAlarm ''1'' 7 0 Shake) shakeReady
     (handleDismissAlarm (monday 7 0 30) shakeReady) \<and>
   oneShotDisabled (oneShotAlarm ''1'' 7 0 Shake) shakeReady
     (handleShakeDismiss (monday 7 0 30) shakeReady) \<and>
   oneShotDisabled (oneShotAlarm ''1'' 7 0 Shake) shakeReady
     (onAccelerometer 2 0 0 (monday 7 0 30) shakeReady) \<and>
   alarms (handleSnoozeAlarm shakeReady) = alarms shakeReady \<and>
   alarmsUpdates (handleSnoozeAlarm shakeReady) = alarmsUpdates shakeReady \<and>
   map enabled (alarms shakeReady) = [True, True] \<and>
   map enabled (alarms (handleSimpleDismiss (monday 7 0 30) shakeReady)) = [False, True]"
proof -
  have h1: "activeAlarm shakeReady = Some (oneShotAlarm ''1'' 7 0 Shake)" by code_simp
  have h2: "list_all (\<lambda>d. \<not> d) (days (oneShotAlarm ''1'' 7 0 Shake))" by code_simp
  have h3: "targetAffirmation shakeReady = Some ''I am grateful and energized''" by code_simp
  have h4: "trim (toLowerCase (affirmationText shakeReady)) = toLowerCase ''I am grateful and energized''"
    by code_simp
  have h5: "parseInt (userAnswer shakeReady) = Some (answer (mathProblem shakeReady))" by code_simp
  have h6: "alarmScreenVisible shakeReady" by code_simp
  have h7: "dismissType (oneShotAlarm ''1'' 7 0 Shake) = Shake" by code_simp
  have h8: "sqrt (2 * 2 + 0 * 0 + 0 * 0) > SHAKE_THRESHOLD" by (simp add: SHAKE_THRESHOLD_def)
  have h9: "monday 7 0 30 - lastShakeTime shakeReady > 300" by code_simp
  have h10: "shakeCount shakeReady + 1 \<ge> REQUIRED_SHAKES" by code_simp
  have e: "map enabled (alarms shakeReady) = [True, True]"
    "map enabled (alarms (handleSimpleDismiss (monday 7 0 30) shakeReady)) = [False, True]"
    by code_simp+
  from one_shot_disabled_on_dismissal [OF h1 h2, where target = "''I am grateful and energized''"
      and now = "monday 7 0 30" and x = 2 and y = 0 and z = 0]
    h1 h2 h3 h4 h5 h6 h7 h8 h9 h10 e
  show ?thesis by blast
qed

section \<open>Triggers while a session is active\<close>

lemma playAlarmSound_frame [simp]:
  "activeAlarm (playAlarmSound i t s) = activeAlarm s"
  "alarmScreenVisible (playAlarmSound i t s) = alarmScreenVisible s"
  "userAnswer (playAlarmSound i t s) = userAnswer s"
  "wrongAnswer (playAlarmSound i t s) = wrongAnswer s"
  "shakeCount (playAlarmSound i t s) = shakeCount s"
  "triggerLog (playAlarmSound i t s) = triggerLog s"
  by (simp_all add: playAlarmSound_def Let_def setTimeout_def split: option.splits prod.splits)

lemma startBreathingExercise_frame [simp]:
  "activeAlarm (startBreathingExercise s) = activeAlarm s"
  "alarmScreenVisible (startBreathingExercise s) = alarmScreenVisible s"
  "userAnswer (startBreathingExercise s) = userAnswer s"
  "wrongAnswer (startBreathingExercise s) = wrongAnswer s"
  "shakeCount (startBreathingExercise s) = shakeCount s"
  "triggerLog (startBreathingExercise s) = triggerLog s"
  by (simp_all add: startBreathingExercise_def Let_def setTimeout_def)

lemma triggerAlarm_session:
  "activeAlarm (triggerAlarm rng al s) = Some al \<and>
   alarmScreenVisible (triggerAlarm rng al s) \<and>
   userAnswer (triggerAlarm rng al s) = [] \<and>
   \<not> wrongAnswer (triggerAlarm rng al s) \<and>
   shakeCount (triggerAlarm rng al s) = 0 \<and>
   triggerLog (triggerAlarm rng al s) = triggerLog s @ [alarm_id al]"
  by (simp add: triggerAlarm_def Let_def split_beta)

text \<open>
  Claim C2, amended. The state has one slot for the active alarm, so one alert screen at
  most is shown. A trigger from the tick loop is not ignored while a session is active:
  whatever the state, an enabled alarm that is due and whose key differs from the last
  recorded one becomes the active alarm, with a fresh mission state.
\<close>

theorem trigger_replaces_active_session:
  assumes "enabled al" and "hour al = getHours now" and "minute al = getMinutes now"
    and "list_all (\<lambda>d. \<not> d) (days al) \<or> days_at (days al) (getDay now)"
    and "lastTriggeredRef s \<noteq>
           alarm_id al @ ''-'' @ show_int (getHours now) @ '':'' @ show_int (getMinutes now)"
  shows "activeAlarm (checkAlarm rng now al s) = Some al \<and>
         alarmScreenVisible (checkAlarm rng now al s) \<and>
         userAnswer (checkAlarm rng now al s) = [] \<and>
         \<not> wrongAnswer (checkAlarm rng now al s) \<and>
         shakeCount (checkAlarm rng now al s) = 0 \<and>
         triggerLog (checkAlarm rng now al s) = triggerLog s @ [alarm_id al]"
proof -
  have "checkAlarm rng now al s =
          triggerAlarm rng al
            (s\<lparr>lastTriggeredRef :=
                 alarm_id al @ ''-'' @ show_int (getHours now) @ '':'' @ show_int (getMinutes now)\<rparr>)"
    using assms by (simp add: checkAlarm_def Let_def)
  then show ?thesis
    using triggerAlarm_session
      [of rng al "s\<lparr>lastTriggeredRef :=
                 alarm_id al @ ''-'' @ show_int (getHours now) @ '':'' @ show_int (getMinutes now)\<rparr>"]
    by simp
qed

theorem trigger_replaces_active_session_witness:
  "(alarmScreenVisible firstSession \<and>
    activeAlarm firstSession = Some (oneShotAlarm ''1'' 7 0 Simple) \<and>
    enabled (oneShotAlarm ''2'' 7 1 Simple) \<and>
    hour (oneShotAlarm ''2'' 7 1 Simple) = getHours (monday 7 1 0) \<and>
    minute (oneShotAlarm ''2'' 7 1 Simple) = getMinutes (monday 7 1 0) \<and>
    list_all (\<lambda>d. \<not> d) (days (oneShotAlarm ''2'' 7 1 Simple)) \<and>
    lastTriggeredRef firstSession \<noteq>
      alarm_id (oneShotAlarm ''2'' 7 1 Simple) @ ''-'' @ show_int (getHours (monday 7 1 0))
        @ '':'' @ show_int (getMinutes (monday 7 1 0))) \<and>
   activeAlarm (checkAlarm rng_low (monday 7 1 0) (oneShotAlarm ''2'' 7 1 Simple) firstSession)
     = Some (oneShotAlarm ''2'' 7 1 Simple) \<and>
   alarmScreenVisible (checkAlarm rng_low (monday 7 1 0) (oneShotAlarm ''2'' 7 1 Simple) firstSession) \<and>
   triggerLog (checkAlarm rng_low (monday 7 1 0) (oneShotAlarm ''2'' 7 1 Simple) firstSession)
     = [''1'', ''2'']"
proof -
  have p: "alarmScreenVisible firstSession"
    "activeAlarm firstSession = Some (oneShotAlarm ''1'' 7 0 Simple)"
    "triggerLog firstSession = [''1'']"
    by code_simp+
  have h1: "enabled (oneShotAlarm ''2'' 7 1 Simple)" by code_simp
  have h2: "hour (oneShotAlarm ''2'' 7 1 Simple) = getHours (monday 7 1 0)" by code_simp
  have h3: "minute (oneShotAlarm ''2'' 7 1 Simple) = getMinutes (monday 7 1 0)" by code_simp
  have h4: "list_all (\<lambda>d. \<not> d) (days (oneShotAlarm ''2'' 7 1 Simple))" by code_simp
  then have h4': "list_all (\<lambda>d. \<not> d) (days (oneShotAlarm ''2'' 7 1 Simple)) \<or>
                  days_at (days (oneShotAlarm ''2'' 7 1 Simple)) (getDay (monday 7 1 0))" ..
  have h5: "lastTriggeredRef firstSession \<noteq>
      alarm_id (oneShotAlarm ''2'' 7 1 Simple) @ ''-'' @ show_int (getHours (monday 7 1 0))
        @ '':'' @ show_int (getMinutes (monday 7 1 0))"
    by code_simp
  have i: "alarm_id (oneShotAlarm ''2'' 7 1 Simple) = ''2''" by code_simp
  from trigger_replaces_active_session [OF h1 h2 h3 h4' h5, of rng_low] p h1 h2 h3 h4 h5 i
  show ?thesis by simp
qed

text \<open>
  The claim as written has the second trigger ignored. After the tick of 07:00 the first
  alarm is on screen with one sound playing; the tick of 07:01 puts the second alarm on
  screen and starts a second sound while the first one still plays.
\<close>

theorem second_trigger_not_ignored_counterexample:
  "alarmScreenVisible firstSession \<and>
   activeAlarm firstSession = Some (oneShotAlarm ''1'' 7 0 Simple) \<and>
   map sound_handle (sounds firstSession) = [0] \<and>
   activeAlarm (checkAlarmTriggers rng_low (monday 7 1 0) firstSession)
     = Some (oneShotAlarm ''2'' 7 1 Simple) \<and>
   map sound_handle (sounds (checkAlarmTriggers rng_low (monday 7 1 0) firstSession)) = [0, 1] \<and>
   triggerLog (checkAlarmTriggers rng_low (monday 7 1 0) firstSession) = [''1'', ''2'']"
  by code_simp

section \<open>Sound pattern\<close>

lemma find_timer_fresh:
  assumes "list_all (\<lambda>p. timer_id p < n) ps" "n \<le> m" "timer_id x = m"
  shows "find (\<lambda>p. timer_id p = m) (ps @ [x]) = Some x"
  using assms by (induction ps) auto

lemma filter_timer_fresh:
  assumes "list_all (\<lambda>p. timer_id p < n) ps" "n \<le> m"
  shows "filter (\<lambda>q. timer_id q \<noteq> m) ps = ps"
  using assms by (induction ps) auto

lemma find_sound_fresh:
  assumes "list_all (\<lambda>x. sound_handle x < h) xs" "sound_handle y = h"
  shows "find (\<lambda>x. sound_handle x = h) (xs @ [y]) = Some y"
  using assms by (induction xs) auto

lemma map_volume_fresh:
  assumes "list_all (\<lambda>x. sound_handle x < h) xs"
  shows "map (\<lambda>x. if sound_handle x = h then x\<lparr>volume := v\<rparr> else x) xs = xs"
  using assms by (induction xs) auto

lemma find_intensity: 
  "(case find (\<lambda>opt. fst opt = i) WAKE_INTENSITY_OPTIONS of Some opt \<Rightarrow> snd opt | None \<Rightarrow> 0.5)
     = intensityVolume i"
  by (cases i) (simp_all add: WAKE_INTENSITY_OPTIONS_def intensityVolume_def)

lemma pattern_nonempty:
  assumes "snd (SOUND_CONFIGS t) = Some pattern"
  shows "pattern \<noteq> []"
  using assms by (cases t) (auto simp: SOUND_CONFIGS_def)

lemma playAlarmSound_patternState:
  assumes "snd (SOUND_CONFIGS t) = Some pattern"
  shows "playAlarmSound i t s = patternState i t pattern s 0"
proof -
  from pattern_nonempty [OF assms] obtain d ds where p: "pattern = d # ds"
    by (cases pattern) auto
  show ?thesis
    using assms
    by (simp add: playAlarmSound_def patternState_def Let_def setTimeout_def find_intensity p)
qed

lemma patternTimerFires_patternState:
  assumes fresh: "freshIds s" and ne: "pattern \<noteq> []"
  shows "patternTimerFires rng (patternState i t pattern s k) = patternState i t pattern s (Suc k)"
proof -
  from fresh have ts: "list_all (\<lambda>p. timer_id p < nextTimer s) (timeouts s)"
    and ss: "list_all (\<lambda>x. sound_handle x < nextSound s) (sounds s)"
    by (simp_all add: freshIds_def)
  note f = find_timer_fresh [OF ts] and g = filter_timer_fresh [OF ts]
    and m = map_volume_fresh [OF ss]
  show ?thesis
    unfolding patternTimerFires_def
    by (simp add: patternState_def fireTimeout_def f g m runPattern_def setVolumeAsync_def
          setTimeout_def Let_def ne)
qed

lemma patternState_reached:
  assumes "freshIds s" "snd (SOUND_CONFIGS t) = Some pattern"
  shows "(patternTimerFires rng ^^ k) (playAlarmSound i t s) = patternState i t pattern s k"
proof (induction k)
  case 0
  show ?case using playAlarmSound_patternState [OF assms(2)] by simp
next
  case (Suc k)
  then show ?case
    using patternTimerFires_patternState [OF assms(1) pattern_nonempty [OF assms(2)]]
    by simp
qed

lemma patternState_observed:
  assumes "freshIds s"
  shows "soundVolume (nextSound s) (patternState i t pattern s k)
           = Some (if k = 0 \<or> odd k then intensityVolume i else 0.05)"
    and "patternDelay (patternState i t pattern s k)
           = Some (int (pattern ! ((k - 1) mod length pattern)))"
    and "patternIndexRef (patternState i t pattern s k) = k"
proof -
  from assms have ts: "list_all (\<lambda>p. timer_id p < nextTimer s) (timeouts s)"
    and ss: "list_all (\<lambda>x. sound_handle x < nextSound s) (sounds s)"
    by (simp_all add: freshIds_def)
  note f = find_timer_fresh [OF ts] and h = find_sound_fresh [OF ss]
  show "soundVolume (nextSound s) (patternState i t pattern s k)
           = Some (if k = 0 \<or> odd k then intensityVolume i else 0.05)"
    by (simp add: soundVolume_def patternState_def h)
  show "patternDelay (patternState i t pattern s k)
           = Some (int (pattern ! ((k - 1) mod length pattern)))"
    by (simp add: patternDelay_def patternState_def f)
  show "patternIndexRef (patternState i t pattern s k) = k"
    by (simp add: patternState_def)
qed

lemma quiet_volume: "(0::real) < 0.05 \<and> intensityVolume i \<noteq> 0.05"
  by (cases i) (simp_all add: intensityVolume_def)

text \<open>
  Claim C9, amended. Let a sound with a pattern be started in a state whose ids are
  fresh. After \<open>k\<close> phase boundaries the sound's volume is the quiet volume 0.05 when \<open>k\<close>
  is even and positive, and the initial volume of the intensity otherwise: the first
  boundary sets the initial volume again, and from the second boundary on every boundary
  changes the volume. The quiet volume is above zero and differs from every initial
  volume. The index has advanced to \<open>k\<close>, and the next boundary is scheduled after the
  pattern entry at index \<open>(k - 1) mod length pattern\<close>, the entry the last boundary
  read (the first boundary is scheduled after entry 0).
\<close>

theorem pattern_phases:
  assumes "freshIds s" and "snd (SOUND_CONFIGS t) = Some pattern"
  shows "soundVolume (nextSound s) ((patternTimerFires rng ^^ k) (playAlarmSound i t s))
           = Some (if k = 0 \<or> odd k then intensityVolume i else 0.05) \<and>
         (0::real) < 0.05 \<and> intensityVolume i \<noteq> 0.05 \<and>
         patternIndexRef ((patternTimerFires rng ^^ k) (playAlarmSound i t s)) = k \<and>
         patternDelay ((patternTimerFires rng ^^ k) (playAlarmSound i t s))
           = Some (int (pattern ! ((k - 1) mod length pattern)))"
  using patternState_reached [OF assms, where rng = rng and k = k and i = i]
    patternState_observed [OF assms(1), where i = i and t = t and pattern = pattern and k = k]
    quiet_volume [of i]
  by simp

theorem pattern_phases_witness:
  "(freshIds (initialState rng_low []) \<and> snd (SOUND_CONFIGS Ocean) = Some [3000, 1500]) \<and>
   soundVolume (nextSound (initialState rng_low []))
     ((patternTimerFires rng_low ^^ 4) (playAlarmSound Whisper Ocean (initialState rng_low [])))
     = Some 0.05 \<and>
   patternIndexRef
     ((patternTimerFires rng_low ^^ 4) (playAlarmSound Whisper Ocean (initialState rng_low []))) = 4 \<and>
   patternDelay
     ((patternTimerFires rng_low ^^ 4) (playAlarmSound Whisper Ocean (initialState rng_low [])))
     = Some 1500"
proof -
  have h1: "freshIds (initialState rng_low [])"
    by (simp add: freshIds_def initialState_def)
  have h2: "snd (SOUND_CONFIGS Ocean) = Some [3000, 1500]"
    by (simp add: SOUND_CONFIGS_def)
  have e: "int ([3000, 1500] ! ((4 - 1) mod length [3000, 1500::nat])) = 1500"
    by code_simp
  have v: "(if (4::nat) = 0 \<or> odd (4::nat) then intensityVolume Whisper else 0.05) = 0.05"
    by simp
  note p = pattern_phases [OF h1 h2, where rng = rng_low and k = 4 and i = Whisper]
  from p [unfolded e v] h1 h2 show ?thesis by blast
qed

text \<open>
  The claim as written has the volume change at every phase boundary. After a trigger
  with the sound \<open>Ocean\<close> at full intensity the volume is 1; the first boundary leaves
  it at 1 and schedules the next boundary 3000 ms later; the second boundary lowers it to
  0.05.
\<close>

theorem first_boundary_keeps_volume_counterexample:
  "soundVolume 0 firstSession = Some 1 \<and>
   patternDelay firstSession = Some 3000 \<and>
   soundVolume 0 (patternTimerFires rng_low firstSession) = Some 1 \<and>
   patternDelay (patternTimerFires rng_low firstSession) = Some 3000 \<and>
   soundVolume 0 (patternTimerFires rng_low (patternTimerFires rng_low firstSession)) = Some 0.05 \<and>
   patternDelay (patternTimerFires rng_low (patternTimerFires rng_low firstSession)) = Some 1500"
  by code_simp

end
